theory Spec2Isabelle
  imports Complex_Main "HOL-Library.Log_Nat"
begin

section \<open>Python values and exceptions\<close>

text \<open>
  The raw records handled by \<^verbatim>\<open>app/utils/preprocessing.py\<close> are Python dictionaries from
  field names to scalar values. A value is \<^verbatim>\<open>None\<close>, a \<^verbatim>\<open>bool\<close>, an \<^verbatim>\<open>int\<close>
  (unbounded), a \<^verbatim>\<open>float\<close> or a \<^verbatim>\<open>str\<close>. A \<^verbatim>\<open>float\<close> is a finite IEEE double, given
  by the rational number it denotes; the two zeros are not told apart, and infinities, NaN
  and magnitudes beyond the largest double are outside the model. A \<^verbatim>\<open>str\<close> is a list of
  characters, each character standing for a code point below 256.
\<close>

datatype pyval = PNone | PBool bool | PInt int | PFloat rat | PStr string

text \<open>
  Exceptions are values. \<open>FeatureCountMismatch g e\<close> is the
  \<^verbatim>\<open>ValueError(f"Feature count mismatch: generated {g}, model expects {e}")\<close> of the service,
  \<open>ModelNotLoaded n\<close> is the \<^verbatim>\<open>ValueError(f"Model {n} not loaded")\<close> of the loader.
  \<open>HTTPException status detail\<close> is FastAPI's exception, a subclass of \<^verbatim>\<open>Exception\<close>;
  its detail is either a literal string or \<^verbatim>\<open>f"{prefix}: {str(e)}"\<close> for a caught
  exception \<open>e\<close>, kept structured as \<open>Wrapped prefix e\<close>.
\<close>

datatype exn =
    KeyError string
  | TypeError
  | ValueError
  | AttributeError
  | IndexError
  | OSError
  | FeatureCountMismatch nat int
  | ModelNotLoaded string
  | HTTPException nat detail
and detail =
    Literal string
  | Wrapped string exn

type_synonym 'a result = "exn + 'a"

text \<open>Sequencing of a computation that may raise: the first exception wins.\<close>

definition then_do :: "'a result \<Rightarrow> ('a \<Rightarrow> 'b result) \<Rightarrow> 'b result" where
  "then_do r f = (case r of Inl e \<Rightarrow> Inl e | Inr v \<Rightarrow> f v)"

text \<open>A dictionary with string keys is an association list; the first entry of a key counts.\<close>

type_synonym raw_record = "(string \<times> pyval) list"

text \<open>\<^verbatim>\<open>field in data\<close>\<close>

definition has_key :: "(string \<times> 'v) list \<Rightarrow> string \<Rightarrow> bool" where
  "has_key d k = (map_of d k \<noteq> None)"

text \<open>\<^verbatim>\<open>data[field]\<close>, raising \<^verbatim>\<open>KeyError\<close> on a missing key\<close>

definition getitem :: "(string \<times> 'v) list \<Rightarrow> string \<Rightarrow> 'v result" where
  "getitem d k = (case map_of d k of None \<Rightarrow> Inl (KeyError k) | Some v \<Rightarrow> Inr v)"

text \<open>\<^verbatim>\<open>mapping.get(key, default)\<close> for a dictionary with string keys and any scalar key\<close>

definition dict_get :: "(string \<times> 'v) list \<Rightarrow> pyval \<Rightarrow> 'v \<Rightarrow> 'v" where
  "dict_get m k dflt =
     (case k of
        PStr s \<Rightarrow> (case map_of m s of None \<Rightarrow> dflt | Some v \<Rightarrow> v)
      | _ \<Rightarrow> dflt)"

text \<open>\<^verbatim>\<open>isinstance(v, (int, float))\<close>: \<^verbatim>\<open>bool\<close> is a subclass of \<^verbatim>\<open>int\<close>.\<close>

definition is_number :: "pyval \<Rightarrow> bool" where
  "is_number v = (case v of PBool _ \<Rightarrow> True | PInt _ \<Rightarrow> True | PFloat _ \<Rightarrow> True | _ \<Rightarrow> False)"

text \<open>\<^verbatim>\<open>isinstance(v, str)\<close>\<close>

definition is_str :: "pyval \<Rightarrow> bool" where
  "is_str v = (case v of PStr _ \<Rightarrow> True | _ \<Rightarrow> False)"

text \<open>The numeric value of a number: an \<^verbatim>\<open>int\<close> (left) or a \<^verbatim>\<open>float\<close> (right).\<close>

definition num_of :: "pyval \<Rightarrow> (int + rat) option" where
  "num_of v =
     (case v of
        PBool b \<Rightarrow> Some (Inl (if b then 1 else 0))
      | PInt n \<Rightarrow> Some (Inl n)
      | PFloat r \<Rightarrow> Some (Inr r)
      | _ \<Rightarrow> None)"

definition to_rat :: "int + rat \<Rightarrow> rat" where
  "to_rat x = (case x of Inl n \<Rightarrow> of_int n | Inr r \<Rightarrow> r)"

text \<open>
  Floating-point arithmetic rounds: the result of an operation is the double nearest to the
  exact result, the one with the even significand when two are equally near. For \<open>x > 0\<close>,
  \<open>exponent x\<close> is the integer \<open>e\<close> with \<open>2 ^ e \<le> x < 2 ^ (e + 1)\<close>. A double has 53
  significant bits, so the doubles around \<open>x\<close> are the multiples of \<open>2 ^ (e - 52)\<close>, and
  those of \<open>2 ^ -1074\<close> in the subnormal range. A decimal literal of the source denotes the
  double nearest to it, and an \<^verbatim>\<open>int\<close> that meets a \<^verbatim>\<open>float\<close> in an operation is converted
  to the nearest double first.
\<close>

definition exponent :: "rat \<Rightarrow> int" where
  "exponent x = (if 1 \<le> x then bitlen \<lfloor>x\<rfloor> - 1 else - bitlen (\<lceil>1 / x\<rceil> - 1))"

definition round_half_even :: "rat \<Rightarrow> int" where
  "round_half_even x =
     (let f = \<lfloor>x\<rfloor>; r = x - of_int f
      in if r < 1 / 2 then f else if 1 / 2 < r then f + 1 else if even f then f else f + 1)"

definition nearest_double :: "rat \<Rightarrow> rat" where
  "nearest_double x =
     (if x = 0 then 0
      else let q = max (exponent \<bar>x\<bar> - 52) (- 1074)
           in of_int (round_half_even (x / 2 powi q)) * 2 powi q)"

definition to_float :: "int + rat \<Rightarrow> rat" where
  "to_float x = (case x of Inl n \<Rightarrow> nearest_double (of_int n) | Inr r \<Rightarrow> r)"

text \<open>\<^verbatim>\<open>a - b\<close>: defined on numbers, an \<^verbatim>\<open>int\<close> when both are, a \<^verbatim>\<open>float\<close> otherwise.\<close>

definition py_sub :: "pyval \<Rightarrow> pyval \<Rightarrow> pyval result" where
  "py_sub a b =
     (case (num_of a, num_of b) of
        (Some (Inl x), Some (Inl y)) \<Rightarrow> Inr (PInt (x - y))
      | (Some x, Some y) \<Rightarrow> Inr (PFloat (nearest_double (to_float x - to_float y)))
      | _ \<Rightarrow> Inl TypeError)"

text \<open>\<^verbatim>\<open>a + b\<close>: as subtraction on numbers, concatenation on two strings.\<close>

definition py_add :: "pyval \<Rightarrow> pyval \<Rightarrow> pyval result" where
  "py_add a b =
     (case (a, b) of
        (PStr s, PStr t) \<Rightarrow> Inr (PStr (s @ t))
      | _ \<Rightarrow>
        (case (num_of a, num_of b) of
           (Some (Inl x), Some (Inl y)) \<Rightarrow> Inr (PInt (x + y))
         | (Some x, Some y) \<Rightarrow> Inr (PFloat (nearest_double (to_float x + to_float y)))
         | _ \<Rightarrow> Inl TypeError))"

text \<open>\<^verbatim>\<open>v < 0\<close> and \<^verbatim>\<open>v <= 0\<close>: a \<^verbatim>\<open>TypeError\<close> unless \<open>v\<close> is a number; an \<^verbatim>\<open>int\<close> and
  a \<^verbatim>\<open>float\<close> are compared by their exact values.\<close>

definition py_lt_zero :: "pyval \<Rightarrow> bool result" where
  "py_lt_zero v = (case num_of v of None \<Rightarrow> Inl TypeError | Some x \<Rightarrow> Inr (to_rat x < 0))"

definition py_le_zero :: "pyval \<Rightarrow> bool result" where
  "py_le_zero v = (case num_of v of None \<Rightarrow> Inl TypeError | Some x \<Rightarrow> Inr (to_rat x \<le> 0))"

text \<open>
  \<^verbatim>\<open>str.strip()\<close> removes leading and trailing whitespace; \<^verbatim>\<open>str.isspace\<close> holds for the
  code points 9 to 13, 28 to 32, 133 and 160 (below 256). \<^verbatim>\<open>str.lower()\<close> maps A to Z and the
  Latin-1 capitals 192 to 222 (without 215, the multiplication sign) 32 code points up.
\<close>

definition is_space :: "char \<Rightarrow> bool" where
  "is_space c =
     (let n = (of_char c :: nat)
      in (9 \<le> n \<and> n \<le> 13) \<or> (28 \<le> n \<and> n \<le> 32) \<or> n = 133 \<or> n = 160)"

definition py_strip :: "string \<Rightarrow> string" where
  "py_strip s = rev (dropWhile is_space (rev (dropWhile is_space s)))"

definition lower_char :: "char \<Rightarrow> char" where
  "lower_char c =
     (let n = (of_char c :: nat)
      in if (65 \<le> n \<and> n \<le> 90) \<or> (192 \<le> n \<and> n \<le> 222 \<and> n \<noteq> 215)
         then char_of (n + 32) else c)"

definition py_lower :: "string \<Rightarrow> string" where
  "py_lower s = map lower_char s"

text \<open>
  Built-ins of the interpreter that the code calls and that are not modelled further:
  \<^verbatim>\<open>hash\<close> on a string (salted per process, fixed within one), \<^verbatim>\<open>str\<close> of a value that is
  not a string, and \<^verbatim>\<open>float\<close> of a string (\<open>None\<close> for a \<^verbatim>\<open>ValueError\<close>).
\<close>

record builtins =
  hash_str :: "string \<Rightarrow> int"
  str_scalar :: "pyval \<Rightarrow> string"
  float_str :: "string \<Rightarrow> rat option"

text \<open>\<^verbatim>\<open>str(v)\<close>\<close>

definition py_str :: "builtins \<Rightarrow> pyval \<Rightarrow> string" where
  "py_str env v = (case v of PStr s \<Rightarrow> s | _ \<Rightarrow> str_scalar env v)"

text \<open>\<^verbatim>\<open>float(v)\<close>\<close>

definition py_float :: "builtins \<Rightarrow> pyval \<Rightarrow> rat result" where
  "py_float env v =
     (case v of
        PNone \<Rightarrow> Inl TypeError
      | PBool b \<Rightarrow> Inr (if b then 1 else 0)
      | PInt n \<Rightarrow> Inr (nearest_double (of_int n))
      | PFloat r \<Rightarrow> Inr r
      | PStr s \<Rightarrow> (case float_str env s of None \<Rightarrow> Inl ValueError | Some r \<Rightarrow> Inr r))"

section \<open>Encoders\<close>

text \<open>
  A fitted encoder is known by what \<^verbatim>\<open>int(encoder.transform([v])[0])\<close> does: it returns
  an integer code or raises. The encoder argument of the two preprocessing functions is any
  object: one that has a \<^verbatim>\<open>transform\<close> attribute (such objects are truthy), a dictionary whose
  values are integer codes or fitted encoders, or another object, of which only the truthiness
  matters. \<^verbatim>\<open>None\<close> is the absent encoder.
\<close>

type_synonym transformer = "pyval \<Rightarrow> int result"

datatype encoder_entry = Code int | Fitted transformer

datatype encoder_artifact =
    Transformer transformer
  | EncoderDict "(string \<times> encoder_entry) list"
  | Opaque bool

text \<open>\<^verbatim>\<open>int(x)\<close> of a dictionary entry, and \<^verbatim>\<open>int(x.transform([v])[0])\<close>\<close>

definition int_of_entry :: "encoder_entry \<Rightarrow> int result" where
  "int_of_entry x = (case x of Code n \<Rightarrow> Inr n | Fitted _ \<Rightarrow> Inl TypeError)"

definition call_transform :: "encoder_entry \<Rightarrow> pyval \<Rightarrow> int result" where
  "call_transform x v = (case x of Code _ \<Rightarrow> Inl AttributeError | Fitted t \<Rightarrow> t v)"

section \<open>Online payment: validation and features\<close>

definition fallback_mapping :: "(string \<times> encoder_entry) list" where
  "fallback_mapping =
     [(''PAYMENT'', Code 0), (''TRANSFER'', Code 1), (''CASH_OUT'', Code 2),
      (''DEBIT'', Code 3), (''CASH_IN'', Code 4)]"

text \<open>\<^verbatim>\<open>fallback_mapping.get(data['type'], 0)\<close>\<close>

definition fallback_encode :: "raw_record \<Rightarrow> encoder_entry result" where
  "fallback_encode data =
     then_do (getitem data ''type'') (\<lambda>t. Inr (dict_get fallback_mapping t (Code 0)))"

text \<open>
  The \<^verbatim>\<open>try\<close> block of \<^verbatim>\<open>preprocess_online_payment_data\<close>, then both handlers:
  \<^verbatim>\<open>except ValueError\<close> and \<^verbatim>\<open>except Exception\<close> log and assign the fallback code.
\<close>

definition encode_type_try :: "raw_record \<Rightarrow> encoder_artifact option \<Rightarrow> encoder_entry result" where
  "encode_type_try data label_encoder =
     (case label_encoder of
        Some (Transformer t) \<Rightarrow>
          then_do (getitem data ''type'') (\<lambda>v. then_do (t v) (\<lambda>n. Inr (Code n)))
      | Some (EncoderDict m) \<Rightarrow>
          if m \<noteq> [] then then_do (getitem data ''type'') (\<lambda>v. Inr (dict_get m v (Code 0)))
          else fallback_encode data
      | _ \<Rightarrow> fallback_encode data)"

definition encode_type :: "raw_record \<Rightarrow> encoder_artifact option \<Rightarrow> encoder_entry result" where
  "encode_type data label_encoder =
     (case encode_type_try data label_encoder of
        Inr type_encoded \<Rightarrow> Inr type_encoded
      | Inl _ \<Rightarrow> fallback_encode data)"

definition preprocess_online_payment_data ::
    "raw_record \<Rightarrow> encoder_artifact option \<Rightarrow> pyval list result" where
  "preprocess_online_payment_data data label_encoder =
     then_do (encode_type data label_encoder) (\<lambda>type_encoded.
     then_do (getitem data ''oldbalanceOrg'') (\<lambda>old_org.
     then_do (getitem data ''newbalanceOrig'') (\<lambda>new_orig.
     then_do (py_sub old_org new_orig) (\<lambda>d1.
     then_do (getitem data ''amount'') (\<lambda>amount1.
     then_do (py_add d1 amount1) (\<lambda>diffOrig.
     then_do (getitem data ''newbalanceDest'') (\<lambda>new_dest.
     then_do (getitem data ''oldbalanceDest'') (\<lambda>old_dest.
     then_do (py_sub new_dest old_dest) (\<lambda>d2.
     then_do (getitem data ''amount'') (\<lambda>amount2.
     then_do (py_sub d2 amount2) (\<lambda>diffDest.
     then_do (getitem data ''step'') (\<lambda>step_v.
     then_do (getitem data ''amount'') (\<lambda>amount_v.
     then_do (int_of_entry type_encoded) (\<lambda>code.
       Inr [step_v, amount_v, PInt code, diffOrig, diffDest]))))))))))))))"

definition online_required_fields :: "string list" where
  "online_required_fields =
     [''step'', ''type'', ''amount'', ''oldbalanceOrg'',
      ''newbalanceOrig'', ''oldbalanceDest'', ''newbalanceDest'']"

definition valid_types :: "string list" where
  "valid_types = [''PAYMENT'', ''TRANSFER'', ''CASH_OUT'', ''DEBIT'', ''CASH_IN'']"

definition online_numeric_fields :: "string list" where
  "online_numeric_fields =
     [''step'', ''amount'', ''oldbalanceOrg'', ''newbalanceOrig'',
      ''oldbalanceDest'', ''newbalanceDest'']"

text \<open>\<^verbatim>\<open>for field in required_fields: if field not in data: return False\<close>; true when the loop
  runs to its end.\<close>

fun all_present :: "raw_record \<Rightarrow> string list \<Rightarrow> bool" where
  "all_present data [] = True"
| "all_present data (f # fs) = (if \<not> has_key data f then False else all_present data fs)"

text \<open>\<^verbatim>\<open>for field in numeric_fields: if not isinstance(data[field], (int, float)) or
  data[field] < 0: return False\<close>\<close>

fun all_non_negative :: "raw_record \<Rightarrow> string list \<Rightarrow> bool result" where
  "all_non_negative data [] = Inr True"
| "all_non_negative data (f # fs) =
     then_do (getitem data f) (\<lambda>v.
       if \<not> is_number v then Inr False
       else then_do (py_lt_zero v) (\<lambda>neg.
         if neg then Inr False else all_non_negative data fs))"

text \<open>\<^verbatim>\<open>x not in valid_types\<close>: no element of the list equals \<open>x\<close>.\<close>

definition not_in_strs :: "pyval \<Rightarrow> string list \<Rightarrow> bool" where
  "not_in_strs v xs = (\<not> list_ex (\<lambda>s. v = PStr s) xs)"

definition validate_online_payment_data :: "raw_record \<Rightarrow> bool result" where
  "validate_online_payment_data data =
     (if \<not> all_present data online_required_fields then Inr False
      else then_do (getitem data ''type'') (\<lambda>t.
        if not_in_strs t valid_types then Inr False
        else all_non_negative data online_numeric_fields))"

definition get_online_payment_feature_names :: "string list" where
  "get_online_payment_feature_names =
     [''step'', ''amount'', ''type_encoded'', ''diffOrig'', ''diffDest'']"

section \<open>Credit card: validation and features\<close>

definition cc_required_fields :: "string list" where
  "cc_required_fields =
     [''merchant'', ''category'', ''amt'', ''city'', ''state'',
      ''lat'', ''long'', ''city_pop'', ''job'', ''merch_lat'', ''merch_long'']"

definition numerical_features :: "string list" where
  "numerical_features = [''amt'', ''lat'', ''long'', ''city_pop'', ''merch_lat'', ''merch_long'']"

definition categorical_features :: "string list" where
  "categorical_features = [''merchant'', ''category'', ''city'', ''state'', ''job'']"

text \<open>\<^verbatim>\<open>for field in numeric_fields: if not isinstance(data[field], (int, float)):
  return False\<close>\<close>

fun all_numbers :: "raw_record \<Rightarrow> string list \<Rightarrow> bool result" where
  "all_numbers data [] = Inr True"
| "all_numbers data (f # fs) =
     then_do (getitem data f) (\<lambda>v.
       if \<not> is_number v then Inr False else all_numbers data fs)"

text \<open>\<^verbatim>\<open>for field in string_fields: if not isinstance(data[field], str) or
  not data[field].strip(): return False\<close>; the empty string is the falsy one.\<close>

fun all_nonblank :: "raw_record \<Rightarrow> string list \<Rightarrow> bool result" where
  "all_nonblank data [] = Inr True"
| "all_nonblank data (f # fs) =
     then_do (getitem data f) (\<lambda>v.
       case v of
         PStr s \<Rightarrow> if py_strip s = [] then Inr False else all_nonblank data fs
       | _ \<Rightarrow> Inr False)"

definition validate_credit_card_data :: "raw_record \<Rightarrow> bool result" where
  "validate_credit_card_data data =
     (if \<not> all_present data cc_required_fields then Inr False
      else then_do (all_numbers data numerical_features) (\<lambda>numeric.
        if \<not> numeric then Inr False
        else then_do (getitem data ''amt'') (\<lambda>amt_v.
          then_do (py_le_zero amt_v) (\<lambda>non_positive.
            if non_positive then Inr False
            else all_nonblank data categorical_features))))"

text \<open>\<^verbatim>\<open>for feature in numerical_features: features.append(float(data[feature]))\<close>\<close>

fun append_numerical ::
    "builtins \<Rightarrow> raw_record \<Rightarrow> string list \<Rightarrow> pyval list \<Rightarrow> pyval list result" where
  "append_numerical env data [] features = Inr features"
| "append_numerical env data (f # fs) features =
     then_do (getitem data f) (\<lambda>v.
     then_do (py_float env v) (\<lambda>x.
       append_numerical env data fs (features @ [PFloat x])))"

text \<open>
  The loop over the categorical features when the encoder dictionary is used. The
  \<^verbatim>\<open>try\<close> block reads the field, stringifies it, transforms it and converts the code with
  \<^verbatim>\<open>int\<close>; either handler appends 0. A feature that is no key of the dictionary
  (\<^verbatim>\<open>feature in label_encoders\<close> is false) gets 0.
\<close>

definition encode_with :: "builtins \<Rightarrow> raw_record \<Rightarrow> encoder_entry \<Rightarrow> string \<Rightarrow> int result" where
  "encode_with env data encoder f =
     then_do (getitem data f) (\<lambda>v. call_transform encoder (PStr (py_str env v)))"

fun append_encoded ::
    "builtins \<Rightarrow> raw_record \<Rightarrow> (string \<times> encoder_entry) list \<Rightarrow> string list \<Rightarrow>
     pyval list \<Rightarrow> pyval list" where
  "append_encoded env data label_encoders [] features = features"
| "append_encoded env data label_encoders (f # fs) features =
     (case map_of label_encoders f of
        Some encoder \<Rightarrow>
          (case encode_with env data encoder f of
             Inr encoded_value \<Rightarrow>
               append_encoded env data label_encoders fs (features @ [PInt encoded_value])
           | Inl _ \<Rightarrow> append_encoded env data label_encoders fs (features @ [PInt 0]))
      | None \<Rightarrow> append_encoded env data label_encoders fs (features @ [PInt 0]))"

text \<open>
  The loop of the hash-based fallback: \<^verbatim>\<open>abs(hash(str(data[feature]).strip().lower())) % 1000\<close>,
  and 0 when the \<^verbatim>\<open>try\<close> block raises.
\<close>

definition hash_encode :: "builtins \<Rightarrow> raw_record \<Rightarrow> string \<Rightarrow> int result" where
  "hash_encode env data f =
     then_do (getitem data f) (\<lambda>v.
       Inr (\<bar>hash_str env (py_lower (py_strip (py_str env v)))\<bar> mod 1000))"

fun append_hashed ::
    "builtins \<Rightarrow> raw_record \<Rightarrow> string list \<Rightarrow> pyval list \<Rightarrow> pyval list" where
  "append_hashed env data [] features = features"
| "append_hashed env data (f # fs) features =
     (case hash_encode env data f of
        Inr encoded_value \<Rightarrow> append_hashed env data fs (features @ [PInt encoded_value])
      | Inl _ \<Rightarrow> append_hashed env data fs (features @ [PInt 0]))"

definition preprocess_credit_card_data ::
    "builtins \<Rightarrow> raw_record \<Rightarrow> encoder_artifact option \<Rightarrow> pyval list result" where
  "preprocess_credit_card_data env data label_encoders =
     then_do (append_numerical env data numerical_features []) (\<lambda>features.
       case label_encoders of
         Some (EncoderDict m) \<Rightarrow>
           if m \<noteq> [] then Inr (append_encoded env data m categorical_features features)
           else Inr (append_hashed env data categorical_features features)
       | _ \<Rightarrow> Inr (append_hashed env data categorical_features features))"

definition get_credit_card_feature_names :: "string list" where
  "get_credit_card_feature_names =
     [''amt'', ''lat'', ''long'', ''city_pop'', ''merch_lat'', ''merch_long'',
      ''merchant_encoded'', ''category_encoded'', ''city_encoded'',
      ''state_encoded'', ''job_encoded'']"

section \<open>Risk assessment\<close>

definition assess_risk :: "rat \<Rightarrow> string \<times> string" where
  "assess_risk probability =
     (if probability > 0.8 then (''high'', ''HIGH'')
      else if probability > 0.6 then (''medium'', ''MEDIUM'')
      else if probability > 0.4 then (''medium'', ''MEDIUM'')
      else (''high'', ''LOW''))"


section \<open>The model registry\<close>

text \<open>
  \<^verbatim>\<open>MultiModelLoader\<close> of \<^verbatim>\<open>app/models/model_loader.py\<close>: three dictionaries keyed by the model
  name. An entry of \<open>label_encoders\<close> may hold \<^verbatim>\<open>None\<close>. The type \<open>'m\<close> is that of the
  deserialised model objects, \<open>'e\<close> that of the deserialised encoder objects.
\<close>

record ('m, 'e) multi_model_loader =
  models :: "string \<rightharpoonup> 'm"
  label_encoders :: "string \<rightharpoonup> 'e option"
  loaded_models :: "string \<rightharpoonup> bool"

definition init_loader :: "('m, 'e) multi_model_loader" where
  "init_loader = \<lparr>models = Map.empty, label_encoders = Map.empty, loaded_models = Map.empty\<rparr>"

text \<open>
  The files the loader reads: whether a path exists, what \<^verbatim>\<open>joblib.load\<close> makes of a model
  or encoder file, and what \<^verbatim>\<open>open\<close> followed by \<^verbatim>\<open>pickle.load\<close> makes of a model file.
\<close>

record ('m, 'e) filesystem =
  path_exists :: "string \<Rightarrow> bool"
  joblib_load_model :: "string \<Rightarrow> 'm result"
  pickle_load_model :: "string \<Rightarrow> 'm result"
  joblib_load_encoder :: "string \<Rightarrow> 'e result"

text \<open>
  \<^verbatim>\<open>load_model\<close> returns its boolean and the updated loader. The optional
  \<^verbatim>\<open>encoder_path\<close> is truthy when it is a non-empty string.
\<close>

definition load_model ::
    "('m, 'e) filesystem \<Rightarrow> ('m, 'e) multi_model_loader \<Rightarrow> string \<Rightarrow> string \<Rightarrow> string option \<Rightarrow>
     bool \<times> ('m, 'e) multi_model_loader" where
  "load_model fs self model_name model_path encoder_path =
     (if \<not> path_exists fs model_path then (False, self)
      else
        case (case joblib_load_model fs model_path of
                Inr m \<Rightarrow> Inr m
              | Inl _ \<Rightarrow> pickle_load_model fs model_path) of
          Inl e \<Rightarrow> (False, self\<lparr>loaded_models := (loaded_models self)(model_name \<mapsto> False)\<rparr>)
        | Inr m \<Rightarrow>
            let self1 = self\<lparr>models := (models self)(model_name \<mapsto> m)\<rparr>;
                encoder =
                  (case encoder_path of
                     Some p \<Rightarrow>
                       if p \<noteq> [] \<and> path_exists fs p then
                         (case joblib_load_encoder fs p of Inr enc \<Rightarrow> Some enc | Inl _ \<Rightarrow> None)
                       else None
                   | None \<Rightarrow> None);
                self2 = self1\<lparr>label_encoders := (label_encoders self1)(model_name \<mapsto> encoder)\<rparr>
            in (True, self2\<lparr>loaded_models := (loaded_models self2)(model_name \<mapsto> True)\<rparr>))"

definition get_model :: "('m, 'e) multi_model_loader \<Rightarrow> string \<Rightarrow> 'm result" where
  "get_model self model_name =
     (case loaded_models self model_name of
        None \<Rightarrow> Inl (ModelNotLoaded model_name)
      | Some loaded \<Rightarrow>
          if \<not> loaded then Inl (ModelNotLoaded model_name)
          else (case models self model_name of
                  None \<Rightarrow> Inl (KeyError model_name)
                | Some m \<Rightarrow> Inr m))"

text \<open>\<^verbatim>\<open>self.label_encoders.get(model_name)\<close>\<close>

definition get_label_encoders :: "('m, 'e) multi_model_loader \<Rightarrow> string \<Rightarrow> 'e option" where
  "get_label_encoders self model_name =
     (case label_encoders self model_name of None \<Rightarrow> None | Some enc \<Rightarrow> enc)"

text \<open>\<^verbatim>\<open>self.loaded_models.get(model_name, False)\<close>\<close>

definition is_model_loaded :: "('m, 'e) multi_model_loader \<Rightarrow> string \<Rightarrow> bool" where
  "is_model_loaded self model_name =
     (case loaded_models self model_name of None \<Rightarrow> False | Some loaded \<Rightarrow> loaded)"

text \<open>
  An estimator: its declared input width \<^verbatim>\<open>n_features_in_\<close>, its \<^verbatim>\<open>predict\<close> method and,
  when it has one, its \<^verbatim>\<open>predict_proba\<close> method, both on a list of feature vectors.
\<close>

record estimator =
  n_features_in :: int
  model_predict :: "pyval list list \<Rightarrow> pyval list result"
  model_predict_proba :: "(pyval list list \<Rightarrow> rat list list result) option"

definition predict ::
    "(estimator, 'e) multi_model_loader \<Rightarrow> string \<Rightarrow> pyval list list \<Rightarrow> pyval list result" where
  "predict self model_name features =
     then_do (get_model self model_name) (\<lambda>model. model_predict model features)"

definition predict_proba ::
    "(estimator, 'e) multi_model_loader \<Rightarrow> string \<Rightarrow> pyval list list \<Rightarrow>
     rat list list option result" where
  "predict_proba self model_name features =
     then_do (get_model self model_name) (\<lambda>model.
       case model_predict_proba model of
         Some proba \<Rightarrow> then_do (proba features) (\<lambda>probabilities. Inr (Some probabilities))
       | None \<Rightarrow> Inr None)"

section \<open>The fraud detection service\<close>

text \<open>The request schemas of \<^verbatim>\<open>app/schemas/prediction.py\<close> and their \<^verbatim>\<open>dict()\<close>.\<close>

record online_payment_input =
  step :: int
  type :: string
  amount :: rat
  oldbalanceOrg :: rat
  newbalanceOrig :: rat
  oldbalanceDest :: rat
  newbalanceDest :: rat

record credit_card_input =
  merchant :: string
  category :: string
  amt :: rat
  city :: string
  state :: string
  lat :: rat
  long :: rat
  city_pop :: int
  job :: string
  merch_lat :: rat
  merch_long :: rat

definition online_payment_dict :: "online_payment_input \<Rightarrow> raw_record" where
  "online_payment_dict x =
     [(''step'', PInt (step x)), (''type'', PStr (type x)), (''amount'', PFloat (amount x)),
      (''oldbalanceOrg'', PFloat (oldbalanceOrg x)), (''newbalanceOrig'', PFloat (newbalanceOrig x)),
      (''oldbalanceDest'', PFloat (oldbalanceDest x)),
      (''newbalanceDest'', PFloat (newbalanceDest x))]"

definition credit_card_dict :: "credit_card_input \<Rightarrow> raw_record" where
  "credit_card_dict x =
     [(''merchant'', PStr (merchant x)), (''category'', PStr (category x)),
      (''amt'', PFloat (amt x)), (''city'', PStr (city x)), (''state'', PStr (state x)),
      (''lat'', PFloat (lat x)), (''long'', PFloat (long x)), (''city_pop'', PInt (city_pop x)),
      (''job'', PStr (job x)), (''merch_lat'', PFloat (merch_lat x)),
      (''merch_long'', PFloat (merch_long x))]"

record fraud_detection_response =
  model_type :: string
  is_fraud :: bool
  fraud_probability :: rat
  confidence_level :: string
  risk_score :: string
  transaction_amount :: rat
  features_used :: "(string \<times> pyval) list"

text \<open>\<^verbatim>\<open>xs[i]\<close> and \<^verbatim>\<open>bool(v)\<close>\<close>

definition py_index :: "'a list \<Rightarrow> nat \<Rightarrow> 'a result" where
  "py_index xs i = (if i < length xs then Inr (xs ! i) else Inl IndexError)"

definition py_bool :: "pyval \<Rightarrow> bool" where
  "py_bool v =
     (case v of
        PNone \<Rightarrow> False
      | PBool b \<Rightarrow> b
      | PInt n \<Rightarrow> n \<noteq> 0
      | PFloat r \<Rightarrow> r \<noteq> 0
      | PStr s \<Rightarrow> s \<noteq> [])"

text \<open>
  What follows the feature building is the same text in both methods, up to the model name:
  the feature count check, the prediction, the probability (0.0 when the estimator has no
  \<^verbatim>\<open>predict_proba\<close>), the risk assessment and the response.
\<close>

definition count_predict_score ::
    "(estimator, 'e) multi_model_loader \<Rightarrow> string \<Rightarrow> string list \<Rightarrow> rat \<Rightarrow> pyval list \<Rightarrow>
     fraud_detection_response result" where
  "count_predict_score self name feature_names amount_v features =
     then_do (get_model self name) (\<lambda>model.
       let expected_features = n_features_in model in
       if int (length features) \<noteq> expected_features
       then Inl (FeatureCountMismatch (length features) expected_features)
       else
         then_do (predict self name [features]) (\<lambda>predictions.
         then_do (py_index predictions 0) (\<lambda>prediction.
         then_do (predict_proba self name [features]) (\<lambda>probabilities.
         then_do (case probabilities of
                    Some ps \<Rightarrow> then_do (py_index ps 0) (\<lambda>row. py_index row 1)
                  | None \<Rightarrow> Inr 0) (\<lambda>probability.
           case assess_risk probability of
             (confidence, risk) \<Rightarrow>
               Inr \<lparr>model_type = name, is_fraud = py_bool prediction,
                    fraud_probability = probability, confidence_level = confidence,
                    risk_score = risk, transaction_amount = amount_v,
                    features_used = zip feature_names features\<rparr>)))))"

text \<open>
  The two service methods. The body of the \<^verbatim>\<open>try\<close> block comes first; the handler
  \<^verbatim>\<open>except Exception as e\<close> turns every exception of the body, the \<^verbatim>\<open>HTTPException\<close> of
  status 400 included, into an \<^verbatim>\<open>HTTPException\<close> of status 500.
\<close>

definition online_payment_body ::
    "(estimator, encoder_artifact) multi_model_loader \<Rightarrow> online_payment_input \<Rightarrow>
     fraud_detection_response result" where
  "online_payment_body self x =
     then_do (validate_online_payment_data (online_payment_dict x)) (\<lambda>valid.
       if \<not> valid then Inl (HTTPException 400 (Literal ''Invalid online payment data''))
       else
         let label_encoder = get_label_encoders self ''online-payment'' in
         then_do (preprocess_online_payment_data (online_payment_dict x) label_encoder)
           (\<lambda>features.
             count_predict_score self ''online-payment'' get_online_payment_feature_names
               (amount x) features))"

definition predict_online_payment_fraud ::
    "(estimator, encoder_artifact) multi_model_loader \<Rightarrow> online_payment_input \<Rightarrow>
     fraud_detection_response result" where
  "predict_online_payment_fraud self x =
     (case online_payment_body self x of
        Inr response \<Rightarrow> Inr response
      | Inl e \<Rightarrow> Inl (HTTPException 500 (Wrapped ''Online payment prediction failed'' e)))"

definition credit_card_body ::
    "builtins \<Rightarrow> (estimator, encoder_artifact) multi_model_loader \<Rightarrow> credit_card_input \<Rightarrow>
     fraud_detection_response result" where
  "credit_card_body env self x =
     then_do (validate_credit_card_data (credit_card_dict x)) (\<lambda>valid.
       if \<not> valid then Inl (HTTPException 400 (Literal ''Invalid credit card data''))
       else
         let label_encoders_v = get_label_encoders self ''credit-card'' in
         then_do (preprocess_credit_card_data env (credit_card_dict x) label_encoders_v)
           (\<lambda>features.
             count_predict_score self ''credit-card'' get_credit_card_feature_names
               (amt x) features))"

definition predict_credit_card_fraud ::
    "builtins \<Rightarrow> (estimator, encoder_artifact) multi_model_loader \<Rightarrow> credit_card_input \<Rightarrow>
     fraud_detection_response result" where
  "predict_credit_card_fraud env self x =
     (case credit_card_body env self x of
        Inr response \<Rightarrow> Inr response
      | Inl e \<Rightarrow> Inl (HTTPException 500 (Wrapped ''Credit card prediction failed'' e)))"

section \<open>Reference predicates and sample inputs\<close>

text \<open>The online payment record of the schema example and of the specification's scenario.\<close>

definition sample_payment :: raw_record where
  "sample_payment =
     [(''step'', PInt 1), (''type'', PStr ''PAYMENT''),
      (''amount'', PFloat (nearest_double 9839.64)), (''oldbalanceOrg'', PFloat 170136.0),
      (''newbalanceOrig'', PFloat (nearest_double 160296.36)),
      (''oldbalanceDest'', PFloat 0.0), (''newbalanceDest'', PFloat 0.0)]"

text \<open>
  The vocabulary of the specification, written independently of the code: a value is a number
  when it is an \<^verbatim>\<open>int\<close>, a \<^verbatim>\<open>float\<close> or a \<^verbatim>\<open>bool\<close> (Python's \<^verbatim>\<open>bool\<close> is an integer
  type, \<^verbatim>\<open>True\<close> being 1 and \<^verbatim>\<open>False\<close> 0), and \<open>number_value\<close> is its value.
\<close>

definition a_number :: "pyval \<Rightarrow> bool" where
  "a_number v \<longleftrightarrow> (\<exists>b. v = PBool b) \<or> (\<exists>n. v = PInt n) \<or> (\<exists>r. v = PFloat r)"

definition number_value :: "pyval \<Rightarrow> rat" where
  "number_value v =
     (case v of PBool b \<Rightarrow> (if b then 1 else 0) | PInt n \<Rightarrow> of_int n | PFloat r \<Rightarrow> r | _ \<Rightarrow> 0)"

text \<open>
  What makes an online payment record invalid: a required field is missing, a numeric field
  is not a number, a numeric field is negative, or the type is not one of the five known.
\<close>

definition online_payment_violation :: "raw_record \<Rightarrow> bool" where
  "online_payment_violation d \<longleftrightarrow>
     (\<exists>f\<in>set online_required_fields. map_of d f = None) \<or>
     (\<exists>f\<in>set online_numeric_fields. \<exists>v. map_of d f = Some v \<and> \<not> a_number v) \<or>
     (\<exists>f\<in>set online_numeric_fields. \<exists>v. map_of d f = Some v \<and> a_number v \<and> number_value v < 0) \<or>
     (\<exists>v. map_of d ''type'' = Some v \<and> v \<notin> PStr ` set valid_types)"


text \<open>The fixed built-in mapping of transaction types, 0 for any other string.\<close>

definition builtin_code :: "string \<Rightarrow> int" where
  "builtin_code s =
     (if s = ''PAYMENT'' then 0 else if s = ''TRANSFER'' then 1 else if s = ''CASH_OUT'' then 2
      else if s = ''DEBIT'' then 3 else if s = ''CASH_IN'' then 4 else 0)"

text \<open>An encoder dictionary, if there is one, holds integer codes only.\<close>

definition plain_codes :: "encoder_artifact option \<Rightarrow> bool" where
  "plain_codes le =
     (case le of
        Some (EncoderDict m) \<Rightarrow> list_all (\<lambda>kv. case snd kv of Code _ \<Rightarrow> True | Fitted _ \<Rightarrow> False) m
      | _ \<Rightarrow> True)"

text \<open>
  The encoding policy as the specification words it: the \<^verbatim>\<open>transform\<close> of a fitted encoder,
  with the built-in mapping on any error; the built-in mapping for a plain map; the built-in
  mapping when there is no usable encoder.
\<close>

definition claimed_type_code :: "encoder_artifact option \<Rightarrow> string \<Rightarrow> int" where
  "claimed_type_code le s =
     (case le of
        Some (Transformer t) \<Rightarrow> (case t (PStr s) of Inr n \<Rightarrow> n | Inl _ \<Rightarrow> builtin_code s)
      | Some (EncoderDict m) \<Rightarrow> builtin_code s
      | _ \<Rightarrow> builtin_code s)"

text \<open>
  The encoding policy of the code: a non-empty plain map is consulted itself, with 0 for a
  type that is not one of its keys; an empty map counts as no usable encoder.
\<close>

definition type_code :: "encoder_artifact option \<Rightarrow> string \<Rightarrow> int" where
  "type_code le s =
     (case le of
        Some (Transformer t) \<Rightarrow> (case t (PStr s) of Inr n \<Rightarrow> n | Inl _ \<Rightarrow> builtin_code s)
      | Some (EncoderDict m) \<Rightarrow>
          if m = [] then builtin_code s
          else (case map_of m s of Some (Code n) \<Rightarrow> n | _ \<Rightarrow> 0)
      | _ \<Rightarrow> builtin_code s)"





text \<open>Sample built-ins (the hash of a string is its length) and the credit card record of
  the schema example.\<close>

definition sample_builtins :: builtins where
  "sample_builtins =
     \<lparr>hash_str = (\<lambda>s. int (length s)), str_scalar = (\<lambda>v. []), float_str = (\<lambda>s. None)\<rparr>"

definition sample_card :: raw_record where
  "sample_card =
     [(''merchant'', PStr ''fraud_Rippin, Kub and Mann''), (''category'', PStr ''misc_net''),
      (''amt'', PFloat (nearest_double 4.97)), (''city'', PStr ''Malton''),
      (''state'', PStr ''OH''), (''lat'', PFloat (nearest_double 39.9459)),
      (''long'', PFloat (nearest_double (- 82.1661))), (''city_pop'', PInt 35),
      (''job'', PStr ''Psychologist, counselling''),
      (''merch_lat'', PFloat (nearest_double 39.9459)),
      (''merch_long'', PFloat (nearest_double (- 82.1661)))]"

text \<open>
  The code that the encoder dictionary \<open>m\<close> gives the field \<open>f\<close> of a record: the
  transformed value, 0 when the transformation raises, 0 when \<open>m\<close> has no encoder for \<open>f\<close>.
\<close>

definition encoded_code ::
    "builtins \<Rightarrow> raw_record \<Rightarrow> (string \<times> encoder_entry) list \<Rightarrow> string \<Rightarrow> int" where
  "encoded_code env d m f =
     (case map_of m f of
        Some encoder \<Rightarrow> (case encode_with env d encoder f of Inr n \<Rightarrow> n | Inl _ \<Rightarrow> 0)
      | None \<Rightarrow> 0)"


text \<open>
  A sample estimator of a given width, files that hold one estimator per domain, no encoder
  and one corrupt model file, and the loader after loading both domains from these files.
\<close>

definition sample_estimator :: "int \<Rightarrow> estimator" where
  "sample_estimator width =
     \<lparr>n_features_in = width,
      model_predict = (\<lambda>rows. Inr (map (\<lambda>row. PInt 0) rows)),
      model_predict_proba =
        Some (\<lambda>rows. Inr (map (\<lambda>row. [nearest_double 0.9, nearest_double 0.1]) rows))\<rparr>"

definition sample_files :: "int \<Rightarrow> int \<Rightarrow> (estimator, encoder_artifact) filesystem" where
  "sample_files w1 w2 =
     \<lparr>path_exists = (\<lambda>p. p = ''online_payment.pkl'' \<or> p = ''credit_card.pkl'' \<or> p = ''corrupt.pkl''),
      joblib_load_model =
        (\<lambda>p. if p = ''online_payment.pkl'' then Inr (sample_estimator w1)
             else if p = ''credit_card.pkl'' then Inr (sample_estimator w2)
             else Inl ValueError),
      pickle_load_model = (\<lambda>p. Inl ValueError),
      joblib_load_encoder = (\<lambda>p. Inl ValueError)\<rparr>"

definition sample_loader :: "int \<Rightarrow> int \<Rightarrow> (estimator, encoder_artifact) multi_model_loader" where
  "sample_loader w1 w2 =
     snd (load_model (sample_files w1 w2)
            (snd (load_model (sample_files w1 w2) init_loader
                    ''online-payment'' ''online_payment.pkl'' (Some ''online_payment_label_encoder.pkl'')))
            ''credit-card'' ''credit_card.pkl'' (Some ''credit_card_label_encoders.pkl''))"

text \<open>The request bodies of the schema examples.\<close>

definition sample_payment_input :: online_payment_input where
  "sample_payment_input =
     \<lparr>step = 1, type = ''PAYMENT'', amount = nearest_double 9839.64,
      oldbalanceOrg = 170136.0, newbalanceOrig = nearest_double 160296.36,
      oldbalanceDest = 0.0, newbalanceDest = 0.0\<rparr>"

definition sample_card_input :: credit_card_input where
  "sample_card_input =
     \<lparr>merchant = ''fraud_Rippin, Kub and Mann'', category = ''misc_net'',
      amt = nearest_double 4.97, city = ''Malton'', state = ''OH'',
      lat = nearest_double 39.9459, long = nearest_double (- 82.1661), city_pop = 35,
      job = ''Psychologist, counselling'', merch_lat = nearest_double 39.9459,
      merch_long = nearest_double (- 82.1661)\<rparr>"

text \<open>
  The encoder artefact is missing or does not deserialise: no path is given, the path is
  empty, no file is there, or \<^verbatim>\<open>joblib.load\<close> raises.
\<close>

definition encoder_unavailable :: "('m, 'e) filesystem \<Rightarrow> string option \<Rightarrow> bool" where
  "encoder_unavailable fs encoder_path =
     (case encoder_path of
        None \<Rightarrow> True
      | Some p \<Rightarrow> p = [] \<or> \<not> path_exists fs p \<or> (\<exists>e. joblib_load_encoder fs p = Inl e))"

text \<open>A fitted encoder that has seen no category, an encoder dictionary holding it for the
  merchant, and a plain map that gives \<^verbatim>\<open>PAYMENT\<close> the code 7.\<close>

definition unseen_encoder :: transformer where
  "unseen_encoder v = Inl ValueError"

definition sample_encoders :: "encoder_artifact option" where
  "sample_encoders = Some (EncoderDict [(''merchant'', Fitted unseen_encoder)])"

definition sample_plain_map :: "encoder_artifact option" where
  "sample_plain_map = Some (EncoderDict [(''PAYMENT'', Code 7)])"

text \<open>Two requests that fail validation: an unknown transaction type, an amount of zero.\<close>

definition refund_payment_input :: online_payment_input where
  "refund_payment_input = sample_payment_input\<lparr>type := ''REFUND''\<rparr>"

definition free_card_input :: credit_card_input where
  "free_card_input = sample_card_input\<lparr>amt := 0\<rparr>"

section \<open>Calls and their effects\<close>

text \<open>
  The two preprocessing functions once more, with what a call does besides returning: it
  reads the record and the encoder it was given, both objects that outlive the call, and it
  writes log records. The world of a call holds the two objects and the log. A log record
  keeps the level, the fixed part of the message and the values formatted into it.
\<close>

datatype log_level = Debug | Warning | Error

datatype log_arg = Name string | Val pyval | Exc exn

datatype log_record = Log log_level string "log_arg list"

record world =
  data_obj :: raw_record
  encoder_obj :: "encoder_artifact option"
  log_records :: "log_record list"

type_synonym 'a action = "world \<Rightarrow> 'a result \<times> world"

text \<open>
  An action runs in a world and gives a result (or an exception) and the world after it:
  returning a value, passing on a result computed without the world, sequencing,
  \<^verbatim>\<open>try\<close> with a handler, \<^verbatim>\<open>data[k]\<close>, reading the encoder argument, and a call of the logger.
\<close>

definition returns :: "'a \<Rightarrow> 'a action" where
  "returns v w = (Inr v, w)"

definition lift :: "'a result \<Rightarrow> 'a action" where
  "lift r w = (r, w)"

definition and_then :: "'a action \<Rightarrow> ('a \<Rightarrow> 'b action) \<Rightarrow> 'b action" where
  "and_then a f w = (case a w of (Inl e, w') \<Rightarrow> (Inl e, w') | (Inr v, w') \<Rightarrow> f v w')"

definition try_except :: "'a action \<Rightarrow> (exn \<Rightarrow> 'a action) \<Rightarrow> 'a action" where
  "try_except a handler w =
     (case a w of (Inl e, w') \<Rightarrow> handler e w' | (Inr v, w') \<Rightarrow> (Inr v, w'))"

definition read_field :: "string \<Rightarrow> pyval action" where
  "read_field k w = (getitem (data_obj w) k, w)"

definition the_encoder :: "encoder_artifact option action" where
  "the_encoder w = (Inr (encoder_obj w), w)"

definition logger :: "log_level \<Rightarrow> string \<Rightarrow> log_arg list \<Rightarrow> unit action" where
  "logger level msg args w = (Inr (), w\<lparr>log_records := log_records w @ [Log level msg args]\<rparr>)"

text \<open>\<^verbatim>\<open>except ValueError\<close> catches the exceptions that are \<^verbatim>\<open>ValueError\<close>s.\<close>

definition is_value_error :: "exn \<Rightarrow> bool" where
  "is_value_error e =
     (case e of ValueError \<Rightarrow> True | FeatureCountMismatch _ _ \<Rightarrow> True
      | ModelNotLoaded _ \<Rightarrow> True | _ \<Rightarrow> False)"

text \<open>
  \<^verbatim>\<open>preprocess_online_payment_data\<close> as an action. The handler for \<^verbatim>\<open>ValueError\<close> formats
  \<^verbatim>\<open>data['type']\<close> into its warning, the handler for \<^verbatim>\<open>Exception\<close> formats the exception
  into its error message; both then assign the fallback code.
\<close>

definition fallback_call :: "encoder_entry action" where
  "fallback_call =
     and_then (read_field ''type'') (\<lambda>t. returns (dict_get fallback_mapping t (Code 0)))"

definition encode_type_call :: "encoder_entry action" where
  "encode_type_call =
     try_except
       (and_then the_encoder (\<lambda>label_encoder.
          case label_encoder of
            Some (Transformer t) \<Rightarrow>
              and_then (read_field ''type'') (\<lambda>v.
              and_then (lift (t v)) (\<lambda>n. returns (Code n)))
          | Some (EncoderDict m) \<Rightarrow>
              if m \<noteq> [] then
                and_then (read_field ''type'') (\<lambda>v. returns (dict_get m v (Code 0)))
              else fallback_call
          | _ \<Rightarrow> fallback_call))
       (\<lambda>e. if is_value_error e then
               and_then (read_field ''type'') (\<lambda>v.
               and_then (logger Warning ''Unknown transaction type'' [Val v]) (\<lambda>u.
                 fallback_call))
             else
               and_then (logger Error ''Error encoding transaction type'' [Exc e]) (\<lambda>u.
                 fallback_call))"

definition preprocess_online_payment_call :: "pyval list action" where
  "preprocess_online_payment_call =
     and_then encode_type_call (\<lambda>type_encoded.
     and_then (read_field ''oldbalanceOrg'') (\<lambda>old_org.
     and_then (read_field ''newbalanceOrig'') (\<lambda>new_orig.
     and_then (lift (py_sub old_org new_orig)) (\<lambda>d1.
     and_then (read_field ''amount'') (\<lambda>amount1.
     and_then (lift (py_add d1 amount1)) (\<lambda>diffOrig.
     and_then (read_field ''newbalanceDest'') (\<lambda>new_dest.
     and_then (read_field ''oldbalanceDest'') (\<lambda>old_dest.
     and_then (lift (py_sub new_dest old_dest)) (\<lambda>d2.
     and_then (read_field ''amount'') (\<lambda>amount2.
     and_then (lift (py_sub d2 amount2)) (\<lambda>diffDest.
     and_then (read_field ''step'') (\<lambda>step_v.
     and_then (read_field ''amount'') (\<lambda>amount_v.
     and_then (lift (int_of_entry type_encoded)) (\<lambda>code.
       returns [step_v, amount_v, PInt code, diffOrig, diffDest]))))))))))))))"

text \<open>The record and the encoder of the second world are those of the first.\<close>

definition unchanged :: "world \<Rightarrow> world \<Rightarrow> bool" where
  "unchanged w w' \<longleftrightarrow> data_obj w' = data_obj w \<and> encoder_obj w' = encoder_obj w"

text \<open>
  \<^verbatim>\<open>preprocess_credit_card_data\<close> as an action. Its three loops run a body for each field
  name, passing on the list \<open>features\<close> that the body appends to; an exception ends the
  loop. The bodies are the numeric one, the one with the encoder dictionary (a \<^verbatim>\<open>try\<close> block
  that logs the encoded value at debug level, two handlers, and the warning for a field
  without encoder) and the hash-based one.
\<close>

fun for_each ::
    "(string \<Rightarrow> pyval list \<Rightarrow> pyval list action) \<Rightarrow> string list \<Rightarrow> pyval list \<Rightarrow>
     pyval list action" where
  "for_each body [] features w = (Inr features, w)"
| "for_each body (f # fs) features w =
     (case body f features w of
        (Inl e, w') \<Rightarrow> (Inl e, w')
      | (Inr features', w') \<Rightarrow> for_each body fs features' w')"

definition numerical_step :: "builtins \<Rightarrow> string \<Rightarrow> pyval list \<Rightarrow> pyval list action" where
  "numerical_step env f features =
     and_then (read_field f) (\<lambda>v.
     and_then (lift (py_float env v)) (\<lambda>x. returns (features @ [PFloat x])))"

definition encoded_step ::
    "builtins \<Rightarrow> (string \<times> encoder_entry) list \<Rightarrow> string \<Rightarrow> pyval list \<Rightarrow>
     pyval list action" where
  "encoded_step env encoders f features =
     (case map_of encoders f of
        Some encoder \<Rightarrow>
          try_except
            (and_then (read_field f) (\<lambda>v.
             and_then (lift (call_transform encoder (PStr (py_str env v)))) (\<lambda>encoded_value.
             and_then (logger Debug ''Encoded'' [Name f, Val v, Val (PInt encoded_value)]) (\<lambda>u.
               returns (features @ [PInt encoded_value])))))
            (\<lambda>e. if is_value_error e then
                    and_then (read_field f) (\<lambda>v.
                    and_then (logger Warning ''Unknown value, using 0'' [Name f, Val v]) (\<lambda>u.
                      returns (features @ [PInt 0])))
                  else
                    and_then (logger Error ''Error encoding'' [Name f, Exc e]) (\<lambda>u.
                      returns (features @ [PInt 0])))
      | None \<Rightarrow>
          and_then (logger Warning ''No encoder found'' [Name f]) (\<lambda>u.
            returns (features @ [PInt 0])))"

definition hashed_step :: "builtins \<Rightarrow> string \<Rightarrow> pyval list \<Rightarrow> pyval list action" where
  "hashed_step env f features =
     try_except
       (and_then (read_field f) (\<lambda>v.
          returns (features @
            [PInt (\<bar>hash_str env (py_lower (py_strip (py_str env v)))\<bar> mod 1000)])))
       (\<lambda>e. and_then (logger Warning ''Error hash encoding'' [Name f, Exc e]) (\<lambda>u.
               returns (features @ [PInt 0])))"

definition hashed_call :: "builtins \<Rightarrow> pyval list \<Rightarrow> pyval list action" where
  "hashed_call env features =
     and_then (logger Warning ''Label encoders not available, using hash-based fallback'' [])
       (\<lambda>u. for_each (hashed_step env) categorical_features features)"

definition preprocess_credit_card_call :: "builtins \<Rightarrow> pyval list action" where
  "preprocess_credit_card_call env =
     and_then (for_each (numerical_step env) numerical_features []) (\<lambda>features.
     and_then the_encoder (\<lambda>encoders.
       case encoders of
         Some (EncoderDict m) \<Rightarrow>
           if m \<noteq> [] then for_each (encoded_step env m) categorical_features features
           else hashed_call env features
       | _ \<Rightarrow> hashed_call env features))"

text \<open>The sample credit card record with the sample encoder dictionary and an empty log.\<close>

definition sample_world :: world where
  "sample_world = \<lparr>data_obj = sample_card, encoder_obj = sample_encoders, log_records = []\<rparr>"

section \<open>Floating-point rounding\<close>

text \<open>\<open>exponent x\<close> is the binary exponent of a positive \<open>x\<close>.\<close>

lemma exponent_ge1:
  assumes "1 \<le> x"
  shows "2 powi exponent x \<le> x \<and> x < 2 powi (exponent x + 1)"
proof -
  let ?n = "\<lfloor>x\<rfloor>"
  from assms have n: "0 < ?n" by linarith
  from bitlen_bounds [OF n] have b: "2 ^ nat (bitlen ?n - 1) \<le> ?n" "?n < 2 ^ nat (bitlen ?n)"
    by auto
  from n have bl: "1 \<le> bitlen ?n" by (simp add: bitlen_alt_def)
  have e: "exponent x = bitlen ?n - 1" using assms by (simp add: exponent_def)
  have "(2::rat) powi (bitlen ?n - 1) = of_int (2 ^ nat (bitlen ?n - 1))"
    using bl by (simp add: power_int_def)
  also have "\<dots> \<le> of_int ?n" using b(1) by (simp only: of_int_le_iff)
  also have "\<dots> \<le> x" by simp
  finally have lo: "2 powi exponent x \<le> x" by (simp add: e)
  have "?n + 1 \<le> 2 ^ nat (bitlen ?n)" using b(2) by simp
  then have "(of_int (?n + 1) :: rat) \<le> of_int (2 ^ nat (bitlen ?n))" by (simp only: of_int_le_iff)
  moreover have "x < of_int (?n + 1)" by linarith
  moreover have "(2::rat) powi (bitlen ?n) = of_int (2 ^ nat (bitlen ?n))"
    using bl by (simp add: power_int_def)
  ultimately have "x < 2 powi (exponent x + 1)" by (simp add: e)
  with lo show ?thesis by simp
qed

lemma exponent_lt1:
  assumes "0 < x" "x < 1"
  shows "2 powi exponent x \<le> x \<and> x < 2 powi (exponent x + 1)"
proof -
  let ?m = "\<lceil>1 / x\<rceil>"
  let ?k = "bitlen (?m - 1)"
  from assms have inv: "1 < 1 / x" by simp
  then have m: "0 < ?m - 1" by linarith
  from bitlen_bounds [OF m] have b: "2 ^ nat (?k - 1) \<le> ?m - 1" "?m - 1 < 2 ^ nat ?k"
    by auto
  from m have k: "1 \<le> ?k" by (simp add: bitlen_alt_def)
  have e: "exponent x = - ?k" using assms by (simp add: exponent_def)
  have p2: "(0::rat) < 2 ^ nat ?k" "(0::rat) < 2 ^ nat (?k - 1)" by simp_all
  have "?m \<le> 2 ^ nat ?k" using b(2) by simp
  then have "(of_int ?m :: rat) \<le> of_int (2 ^ nat ?k)" by (simp only: of_int_le_iff)
  then have a2: "(of_int ?m :: rat) \<le> 2 ^ nat ?k" by simp
  have a1: "1 / x \<le> of_int ?m" by (rule le_of_int_ceiling)
  from a1 a2 have "1 / x \<le> 2 ^ nat ?k" by (rule order_trans)
  then have "1 \<le> 2 ^ nat ?k * x" using assms(1) by (simp add: field_simps)
  then have lo: "1 / 2 ^ nat ?k \<le> x" using p2(1) by (simp add: field_simps)
  have "(of_int (2 ^ nat (?k - 1)) :: rat) \<le> of_int (?m - 1)"
    using b(1) by (simp only: of_int_le_iff)
  then have a3: "(2 ^ nat (?k - 1) :: rat) \<le> of_int (?m - 1)" by simp
  have a4: "of_int (?m - 1) < 1 / x" by linarith
  from a3 a4 have "2 ^ nat (?k - 1) < 1 / x" by (rule le_less_trans)
  then have "2 ^ nat (?k - 1) * x < 1" using assms(1) by (simp add: field_simps)
  then have hi: "x < 1 / 2 ^ nat (?k - 1)" using p2(2) by (simp add: field_simps)
  have "(2::rat) powi (- ?k) = 1 / 2 ^ nat ?k" using k by (simp add: power_int_def field_simps)
  moreover have "(2::rat) powi (- ?k + 1) = 1 / 2 ^ nat (?k - 1)"
    using k by (simp add: power_int_def field_simps nat_diff_distrib)
  ultimately show ?thesis using lo hi by (simp add: e)
qed

lemma exponent_bounds:
  "0 < x \<Longrightarrow> 2 powi exponent x \<le> x \<and> x < 2 powi (exponent x + 1)"
  using exponent_ge1 [of x] exponent_lt1 [of x] by (cases "1 \<le> x") auto

text \<open>
  The doubles that the decimal literals of the examples denote, as exact fractions: the
  values that \<^verbatim>\<open>fractions.Fraction\<close> gives for the same literals in Python.
\<close>

lemma nearest_double_values:
  "nearest_double 9839.64 = 676174912070615 / 68719476736"
  "nearest_double (- 9839.64) = - (676174912070615 / 68719476736)"
  "nearest_double 160296.36 = 1376935247735685 / 8589934592"
  "nearest_double 19679.28 = 676174912070615 / 34359738368"
  "nearest_double 19679.280000000013 = 1352349824141231 / 68719476736"
  "nearest_double 4.97 = 5595722537007841 / 1125899906842624"
  "nearest_double 39.9459 = 5621885636093097 / 140737488355328"
  "nearest_double (- 82.1661) = - (2890962635488179 / 35184372088832)"
  by code_simp+

section \<open>Validation\<close>

lemma then_do_Inr [simp]: "then_do (Inr v) f = f v"
  by (simp add: then_do_def)

lemma then_do_Inl [simp]: "then_do (Inl e) f = Inl e"
  by (simp add: then_do_def)

lemma getitem_Some [simp]: "map_of d k = Some v \<Longrightarrow> getitem d k = Inr v"
  by (simp add: getitem_def)

lemma is_number_iff: "is_number v \<longleftrightarrow> a_number v"
  by (cases v) (simp_all add: is_number_def a_number_def)

lemma py_lt_zero_number: "a_number v \<Longrightarrow> py_lt_zero v = Inr (number_value v < 0)"
  by (cases v) (simp_all add: a_number_def py_lt_zero_def num_of_def to_rat_def number_value_def)


lemma all_present_iff: "all_present d fs \<longleftrightarrow> (\<forall>f\<in>set fs. map_of d f \<noteq> None)"
  by (induction fs) (auto simp: has_key_def)

lemma all_non_negative_eq:
  "\<forall>f\<in>set fs. map_of d f \<noteq> None \<Longrightarrow>
   all_non_negative d fs =
     Inr (\<forall>f\<in>set fs. \<forall>v. map_of d f = Some v \<longrightarrow> a_number v \<and> \<not> number_value v < 0)"
proof (induction fs)
  case Nil
  show ?case by simp
next
  case (Cons f fs)
  from Cons.prems obtain v where v: "map_of d f = Some v" by auto
  from Cons.prems have rest: "\<forall>g\<in>set fs. map_of d g \<noteq> None" by simp
  show ?case
  proof (cases "a_number v")
    case False
    with v show ?thesis by (auto simp: is_number_iff)
  next
    case True
    with v Cons.IH [OF rest] show ?thesis
      by (auto simp: is_number_iff py_lt_zero_number)
  qed
qed

lemma not_in_strs_iff: "not_in_strs v xs \<longleftrightarrow> v \<notin> PStr ` set xs"
  by (auto simp: not_in_strs_def list_ex_iff)

lemma numeric_subset_required: "set online_numeric_fields \<subseteq> set online_required_fields"
  by (simp add: online_numeric_fields_def online_required_fields_def)

lemma validate_online_eq:
  "validate_online_payment_data d = Inr (\<not> online_payment_violation d)"
proof (cases "\<forall>f\<in>set online_required_fields. map_of d f \<noteq> None")
  case False
  then show ?thesis
    by (auto simp: validate_online_payment_data_def all_present_iff online_payment_violation_def)
next
  case True
  then have "map_of d ''type'' \<noteq> None" by (simp add: online_required_fields_def)
  then obtain t where t: "map_of d ''type'' = Some t" by auto
  from True numeric_subset_required
  have num: "\<forall>f\<in>set online_numeric_fields. map_of d f \<noteq> None" by blast
  have v1: "\<not> (\<exists>f\<in>set online_required_fields. map_of d f = None)" using True by simp
  show ?thesis
    unfolding validate_online_payment_data_def online_payment_violation_def
    using True t v1 by (auto simp: all_present_iff not_in_strs_iff all_non_negative_eq [OF num])
qed





section \<open>Online payment features\<close>

lemma fallback_builtin: "dict_get fallback_mapping (PStr s) (Code 0) = Code (builtin_code s)"
  by (simp add: dict_get_def fallback_mapping_def builtin_code_def)

lemma fallback_encode_str:
  "map_of d ''type'' = Some (PStr s) \<Longrightarrow> fallback_encode d = Inr (Code (builtin_code s))"
  by (simp add: fallback_encode_def fallback_builtin)

lemma plain_codes_entry:
  "plain_codes (Some (EncoderDict m)) \<Longrightarrow> map_of m s = Some e \<Longrightarrow> \<exists>n. e = Code n"
proof -
  assume pc: "plain_codes (Some (EncoderDict m))" and e: "map_of m s = Some e"
  from e have "(s, e) \<in> set m" by (rule map_of_SomeD)
  with pc have "case e of Code _ \<Rightarrow> True | Fitted _ \<Rightarrow> False"
    by (auto simp: plain_codes_def list_all_iff)
  then show ?thesis by (cases e) auto
qed

lemma encode_type_str:
  assumes t: "map_of d ''type'' = Some (PStr s)" and pc: "plain_codes le"
  shows "encode_type d le = Inr (Code (type_code le s))"
proof (cases le)
  case None
  with t show ?thesis
    by (simp add: encode_type_def encode_type_try_def fallback_encode_str type_code_def)
next
  case (Some a)
  show ?thesis
  proof (cases a)
    case (Transformer tr)
    with Some t show ?thesis
      by (cases "tr (PStr s)")
         (simp_all add: encode_type_def encode_type_try_def fallback_encode_str type_code_def)
  next
    case (EncoderDict m)
    show ?thesis
    proof (cases "map_of m s")
      case None
      with Some EncoderDict t show ?thesis
        by (simp add: encode_type_def encode_type_try_def fallback_encode_str type_code_def
              dict_get_def)
    next
      case (Some e)
      with pc \<open>le = Some a\<close> EncoderDict obtain n where "e = Code n"
        using plain_codes_entry by blast
      with Some \<open>le = Some a\<close> EncoderDict t show ?thesis
        by (auto simp: encode_type_def encode_type_try_def fallback_encode_str type_code_def
              dict_get_def)
    qed
  next
    case (Opaque b)
    with Some t show ?thesis
      by (simp add: encode_type_def encode_type_try_def fallback_encode_str type_code_def)
  qed
qed

lemma py_sub_numbers:
  "a_number a \<Longrightarrow> a_number b \<Longrightarrow> \<exists>x. py_sub a b = Inr x \<and> a_number x"
  by (cases a; cases b) (auto simp: a_number_def py_sub_def num_of_def)

lemma py_add_numbers:
  "a_number a \<Longrightarrow> a_number b \<Longrightarrow> \<exists>x. py_add a b = Inr x \<and> a_number x"
  by (cases a; cases b) (auto simp: a_number_def py_add_def num_of_def)



lemma valid_online_fields:
  assumes "validate_online_payment_data d = Inr True"
  shows "\<forall>f\<in>set online_numeric_fields. \<exists>v. map_of d f = Some v \<and> a_number v \<and> 0 \<le> number_value v"
    and "\<exists>s. map_of d ''type'' = Some (PStr s) \<and> s \<in> set valid_types"
proof -
  from assms have nv: "\<not> online_payment_violation d" by (simp add: validate_online_eq)
  then have pres: "\<forall>f\<in>set online_required_fields. map_of d f \<noteq> None"
    by (auto simp: online_payment_violation_def)
  show "\<forall>f\<in>set online_numeric_fields. \<exists>v. map_of d f = Some v \<and> a_number v \<and> 0 \<le> number_value v"
  proof
    fix f assume f: "f \<in> set online_numeric_fields"
    with pres numeric_subset_required obtain v where v: "map_of d f = Some v" by blast
    with nv f have "a_number v" "\<not> number_value v < 0"
      unfolding online_payment_violation_def by blast+
    with v show "\<exists>v. map_of d f = Some v \<and> a_number v \<and> 0 \<le> number_value v" by auto
  qed
  from pres obtain t where t: "map_of d ''type'' = Some t"
    by (auto simp: online_required_fields_def)
  with nv have "t \<in> PStr ` set valid_types"
    unfolding online_payment_violation_def by blast
  with t show "\<exists>s. map_of d ''type'' = Some (PStr s) \<and> s \<in> set valid_types" by auto
qed

lemma preprocess_online_valid:
  assumes valid: "validate_online_payment_data d = Inr True" and pc: "plain_codes le"
  shows "\<exists>s a ob nb od nd t1 x t2 y t.
           map_of d ''step'' = Some s \<and> map_of d ''amount'' = Some a \<and>
           map_of d ''oldbalanceOrg'' = Some ob \<and> map_of d ''newbalanceOrig'' = Some nb \<and>
           map_of d ''oldbalanceDest'' = Some od \<and> map_of d ''newbalanceDest'' = Some nd \<and>
           map_of d ''type'' = Some (PStr t) \<and> t \<in> set valid_types \<and>
           py_sub ob nb = Inr t1 \<and> py_add t1 a = Inr x \<and>
           py_sub nd od = Inr t2 \<and> py_sub t2 a = Inr y \<and>
           preprocess_online_payment_data d le = Inr [s, a, PInt (type_code le t), x, y] \<and>
           a_number x \<and> a_number y"
proof -
  note num = valid_online_fields(1) [OF valid]
  from num obtain s where s: "map_of d ''step'' = Some s"
    by (auto simp: online_numeric_fields_def)
  from num obtain a where a: "map_of d ''amount'' = Some a" "a_number a"
    by (auto simp: online_numeric_fields_def)
  from num obtain ob where ob: "map_of d ''oldbalanceOrg'' = Some ob" "a_number ob"
    by (auto simp: online_numeric_fields_def)
  from num obtain nb where nb: "map_of d ''newbalanceOrig'' = Some nb" "a_number nb"
    by (auto simp: online_numeric_fields_def)
  from num obtain od where od: "map_of d ''oldbalanceDest'' = Some od" "a_number od"
    by (auto simp: online_numeric_fields_def)
  from num obtain nd where nd: "map_of d ''newbalanceDest'' = Some nd" "a_number nd"
    by (auto simp: online_numeric_fields_def)
  from valid_online_fields(2) [OF valid] obtain t
    where t: "map_of d ''type'' = Some (PStr t)" "t \<in> set valid_types" by auto
  from py_sub_numbers [OF ob(2) nb(2)] obtain t1
    where t1: "py_sub ob nb = Inr t1" "a_number t1" by auto
  from py_add_numbers [OF t1(2) a(2)] obtain x
    where x: "py_add t1 a = Inr x" "a_number x" by auto
  from py_sub_numbers [OF nd(2) od(2)] obtain t2
    where t2: "py_sub nd od = Inr t2" "a_number t2" by auto
  from py_sub_numbers [OF t2(2) a(2)] obtain y
    where y: "py_sub t2 a = Inr y" "a_number y" by auto
  have "preprocess_online_payment_data d le = Inr [s, a, PInt (type_code le t), x, y]"
    unfolding preprocess_online_payment_data_def
    by (simp add: encode_type_str [OF t(1) pc] s a(1) ob(1) nb(1) od(1) nd(1) t1(1) x(1) t2(1) y(1)
          int_of_entry_def)
  with s a ob nb od nd t t1 x t2 y show ?thesis by blast
qed

section \<open>Credit card features\<close>










section \<open>The service and the registry\<close>

lemma count_mismatch:
  "get_model L name = Inr model \<Longrightarrow> int (length fs) \<noteq> n_features_in model \<Longrightarrow>
   count_predict_score L name names a fs =
     Inl (FeatureCountMismatch (length fs) (n_features_in model))"
  by (simp add: count_predict_score_def)

lemma online_mismatch:
  assumes "validate_online_payment_data (online_payment_dict x) = Inr True"
    and "preprocess_online_payment_data (online_payment_dict x)
           (get_label_encoders L ''online-payment'') = Inr fs"
    and "get_model L ''online-payment'' = Inr model"
    and "int (length fs) \<noteq> n_features_in model"
  shows "predict_online_payment_fraud L x =
           Inl (HTTPException 500 (Wrapped ''Online payment prediction failed''
                  (FeatureCountMismatch (length fs) (n_features_in model))))"
  using assms
  by (simp add: predict_online_payment_fraud_def online_payment_body_def count_mismatch)

lemma card_mismatch:
  assumes "validate_credit_card_data (credit_card_dict x) = Inr True"
    and "preprocess_credit_card_data env (credit_card_dict x)
           (get_label_encoders L ''credit-card'') = Inr fs"
    and "get_model L ''credit-card'' = Inr model"
    and "int (length fs) \<noteq> n_features_in model"
  shows "predict_credit_card_fraud env L x =
           Inl (HTTPException 500 (Wrapped ''Credit card prediction failed''
                  (FeatureCountMismatch (length fs) (n_features_in model))))"
  using assms
  by (simp add: predict_credit_card_fraud_def credit_card_body_def count_mismatch)

section \<open>The claims\<close>

lemmas record_eval =
  sample_payment_def sample_card_def has_key_def getitem_def dict_get_def is_number_def
  num_of_def to_rat_def to_float_def py_sub_def py_add_def py_lt_zero_def py_le_zero_def
  not_in_strs_def valid_types_def online_required_fields_def online_numeric_fields_def
  cc_required_fields_def numerical_features_def categorical_features_def

lemma sample_payment_valid: "validate_online_payment_data sample_payment = Inr True"
  by code_simp

lemma sample_payment_features:
  "preprocess_online_payment_data sample_payment None =
     Inr [PInt 1, PFloat (nearest_double 9839.64), PInt 0,
          PFloat (nearest_double 19679.280000000013), PFloat (nearest_double (- 9839.64))]"
  by code_simp


lemma sample_card_valid: "validate_credit_card_data sample_card = Inr True"
  by code_simp







lemma online_dict_eval:
  "online_payment_dict sample_payment_input = sample_payment"
  by (simp add: online_payment_dict_def sample_payment_input_def sample_payment_def)

lemma card_dict_eval:
  "credit_card_dict sample_card_input = sample_card"
  by (simp add: credit_card_dict_def sample_card_input_def sample_card_def)

lemma refund_invalid:
  "validate_online_payment_data (online_payment_dict refund_payment_input) = Inr False"
  by (simp add: refund_payment_input_def sample_payment_input_def online_payment_dict_def
        validate_online_payment_data_def record_eval)

lemma free_card_invalid:
  "validate_credit_card_data (credit_card_dict free_card_input) = Inr False"
  by (simp add: free_card_input_def sample_card_input_def credit_card_dict_def
        validate_credit_card_data_def record_eval)

text \<open>
  Claim C3. A request that fails validation raises \<^verbatim>\<open>HTTPException(status_code=400)\<close> inside
  the \<^verbatim>\<open>try\<close> block; the handler \<^verbatim>\<open>except Exception\<close> catches it and raises the generic
  \<^verbatim>\<open>HTTPException(status_code=500)\<close>. Both methods report the invalid request with status
  500, where the claim asks for the 4xx validation error.
\<close>

theorem invalid_input_reported_as_500:
  "predict_online_payment_fraud (sample_loader 5 11) refund_payment_input =
     Inl (HTTPException 500 (Wrapped ''Online payment prediction failed''
            (HTTPException 400 (Literal ''Invalid online payment data'')))) \<and>
   predict_credit_card_fraud sample_builtins (sample_loader 5 11) free_card_input =
     Inl (HTTPException 500 (Wrapped ''Credit card prediction failed''
            (HTTPException 400 (Literal ''Invalid credit card data''))))"
  by (simp add: predict_online_payment_fraud_def online_payment_body_def refund_invalid
        predict_credit_card_fraud_def credit_card_body_def free_card_invalid)

text \<open>
  Claim C4. In both methods, when the record is valid, the features are built and the model
  is loaded, a feature count different from \<^verbatim>\<open>n_features_in_\<close> fails the request with the
  feature count mismatch error, which reaches the caller inside the \<^verbatim>\<open>HTTPException\<close> of
  the handler. The result does not depend on what the estimator would predict: the vector is
  neither truncated nor padded, and no prediction is made.
\<close>

theorem feature_count_checked:
  "(validate_online_payment_data (online_payment_dict x) = Inr True \<and>
    preprocess_online_payment_data (online_payment_dict x)
      (get_label_encoders L ''online-payment'') = Inr fs \<and>
    get_model L ''online-payment'' = Inr model \<and>
    int (length fs) \<noteq> n_features_in model \<longrightarrow>
      predict_online_payment_fraud L x =
        Inl (HTTPException 500 (Wrapped ''Online payment prediction failed''
               (FeatureCountMismatch (length fs) (n_features_in model))))) \<and>
   (validate_credit_card_data (credit_card_dict y) = Inr True \<and>
    preprocess_credit_card_data env (credit_card_dict y)
      (get_label_encoders L ''credit-card'') = Inr gs \<and>
    get_model L ''credit-card'' = Inr model' \<and>
    int (length gs) \<noteq> n_features_in model' \<longrightarrow>
      predict_credit_card_fraud env L y =
        Inl (HTTPException 500 (Wrapped ''Credit card prediction failed''
               (FeatureCountMismatch (length gs) (n_features_in model')))))"
  using online_mismatch [of x L fs model] card_mismatch [of y env L gs model']
  by blast

lemma sample_loader_eval:
  "get_label_encoders (sample_loader w1 w2) ''online-payment'' = None"
  "get_label_encoders (sample_loader w1 w2) ''credit-card'' = None"
  "get_model (sample_loader w1 w2) ''online-payment'' = Inr (sample_estimator w1)"
  "get_model (sample_loader w1 w2) ''credit-card'' = Inr (sample_estimator w2)"
  by (simp_all add: sample_loader_def sample_files_def load_model_def init_loader_def
        get_label_encoders_def get_model_def Let_def)

lemma sample_card_features:
  "preprocess_credit_card_data sample_builtins sample_card None =
     Inr [PFloat (nearest_double 4.97), PFloat (nearest_double 39.9459),
          PFloat (nearest_double (- 82.1661)), PFloat 35, PFloat (nearest_double 39.9459),
          PFloat (nearest_double (- 82.1661)), PInt 26, PInt 8, PInt 6, PInt 2, PInt 25]"
  by code_simp

text \<open>The theorem of C4 at the schema examples, with estimators of widths 4 and 10.\<close>

theorem feature_count_checked_witness:
  "validate_online_payment_data (online_payment_dict sample_payment_input) = Inr True \<and>
   get_model (sample_loader 4 10) ''online-payment'' = Inr (sample_estimator 4) \<and>
   predict_online_payment_fraud (sample_loader 4 10) sample_payment_input =
     Inl (HTTPException 500 (Wrapped ''Online payment prediction failed''
            (FeatureCountMismatch 5 4))) \<and>
   validate_credit_card_data (credit_card_dict sample_card_input) = Inr True \<and>
   get_model (sample_loader 4 10) ''credit-card'' = Inr (sample_estimator 10) \<and>
   predict_credit_card_fraud sample_builtins (sample_loader 4 10) sample_card_input =
     Inl (HTTPException 500 (Wrapped ''Credit card prediction failed''
            (FeatureCountMismatch 11 10)))"
  using feature_count_checked [of sample_payment_input "sample_loader 4 10"
      "[PInt 1, PFloat (nearest_double 9839.64), PInt 0,
        PFloat (nearest_double 19679.280000000013), PFloat (nearest_double (- 9839.64))]"
      "sample_estimator 4" sample_card_input sample_builtins
      "[PFloat (nearest_double 4.97), PFloat (nearest_double 39.9459),
          PFloat (nearest_double (- 82.1661)), PFloat 35, PFloat (nearest_double 39.9459),
        PFloat (nearest_double (- 82.1661)), PInt 26, PInt 8, PInt 6, PInt 2, PInt 25]"
      "sample_estimator 10"]
  by (simp add: online_dict_eval card_dict_eval sample_payment_valid sample_card_valid
        sample_loader_eval sample_payment_features sample_card_features sample_estimator_def)









text \<open>
  Claim C7 as stated has the built-in mapping used when the encoder is a plain map. The code
  looks the type up in the map itself: a map that gives \<^verbatim>\<open>PAYMENT\<close> the code 7 yields 7,
  where the built-in mapping gives 0.
\<close>

theorem plain_map_counterexample:
  "preprocess_online_payment_data sample_payment sample_plain_map =
     Inr [PInt 1, PFloat (nearest_double 9839.64), PInt 7,
          PFloat (nearest_double 19679.280000000013), PFloat (nearest_double (- 9839.64))] \<and>
   claimed_type_code sample_plain_map ''PAYMENT'' = 0"
  by code_simp

text \<open>
  Claim C7, amended. For a validated online payment record, the third feature is the code of
  \<open>type_code\<close>: the transformed type if the encoder has \<^verbatim>\<open>transform\<close>, the built-in code
  if the transformation raises; the entry of a non-empty plain map of integer codes, 0 if
  the type is not a key of it; the built-in code in every other case.
\<close>

theorem type_encoding_policy:
  "validate_online_payment_data d = Inr True \<and> plain_codes le \<and>
   map_of d ''type'' = Some (PStr s) \<longrightarrow>
     (\<exists>fs. preprocess_online_payment_data d le = Inr fs \<and> length fs = 5 \<and>
        fs ! 2 = PInt (type_code le s))"
proof
  assume h: "validate_online_payment_data d = Inr True \<and> plain_codes le \<and>
    map_of d ''type'' = Some (PStr s)"
  with preprocess_online_valid [of d le] obtain a b x y where
    "preprocess_online_payment_data d le = Inr [a, b, PInt (type_code le s), x, y]"
    by auto
  then show "\<exists>fs. preprocess_online_payment_data d le = Inr fs \<and> length fs = 5 \<and>
        fs ! 2 = PInt (type_code le s)"
    by simp
qed

text \<open>The theorem of C7 at the scenario record, with the plain map.\<close>

theorem type_encoding_policy_witness:
  "validate_online_payment_data sample_payment = Inr True \<and> plain_codes sample_plain_map \<and>
   map_of sample_payment ''type'' = Some (PStr ''PAYMENT'') \<and>
   type_code sample_plain_map ''PAYMENT'' = 7 \<and>
   (\<exists>fs. preprocess_online_payment_data sample_payment sample_plain_map = Inr fs \<and>
      length fs = 5 \<and> fs ! 2 = PInt 7)"
proof -
  have h: "plain_codes sample_plain_map"
    "map_of sample_payment ''type'' = Some (PStr ''PAYMENT'')"
    "type_code sample_plain_map ''PAYMENT'' = 7"
    by (simp_all add: plain_codes_def sample_plain_map_def sample_payment_def type_code_def)
  with type_encoding_policy [of sample_payment sample_plain_map "''PAYMENT''"]
    sample_payment_valid
  show ?thesis by simp
qed

text \<open>
  Claim C8. When the model file is missing, \<open>load_model\<close> returns false and leaves the
  loader as it was, so that a domain that was not loaded is still not loaded. When the file
  is there and neither \<^verbatim>\<open>joblib\<close> nor \<^verbatim>\<open>pickle\<close> can read it, \<open>load_model\<close> returns false
  and marks the domain unloaded. When the model is read and only the encoder is missing or
  unreadable, \<open>load_model\<close> returns true, the domain is loaded, and
  \<open>get_label_encoders\<close> returns \<^verbatim>\<open>None\<close> for it.
\<close>

theorem load_model_outcomes:
  "(\<not> path_exists fs model_path \<longrightarrow>
      load_model fs L name model_path encoder_path = (False, L) \<and>
      (\<not> is_model_loaded L name \<longrightarrow>
         \<not> is_model_loaded (snd (load_model fs L name model_path encoder_path)) name)) \<and>
   (path_exists fs model_path \<and> joblib_load_model fs model_path = Inl e1 \<and>
    pickle_load_model fs model_path = Inl e2 \<longrightarrow>
      fst (load_model fs L name model_path encoder_path) = False \<and>
      \<not> is_model_loaded (snd (load_model fs L name model_path encoder_path)) name) \<and>
   (path_exists fs model_path \<and>
    (joblib_load_model fs model_path = Inr m \<or>
     joblib_load_model fs model_path = Inl e1 \<and> pickle_load_model fs model_path = Inr m) \<and>
    encoder_unavailable fs encoder_path \<longrightarrow>
      fst (load_model fs L name model_path encoder_path) = True \<and>
      is_model_loaded (snd (load_model fs L name model_path encoder_path)) name \<and>
      get_model (snd (load_model fs L name model_path encoder_path)) name = Inr m \<and>
      get_label_encoders (snd (load_model fs L name model_path encoder_path)) name = None)"
  by (auto simp: load_model_def is_model_loaded_def get_model_def get_label_encoders_def
        encoder_unavailable_def Let_def split: option.splits sum.splits)

text \<open>The theorem of C8 on the sample files: a missing model, a corrupt model, a missing
  encoder.\<close>

theorem load_model_outcomes_witness:
  "\<not> path_exists (sample_files 5 11) ''absent.pkl'' \<and>
   \<not> is_model_loaded (init_loader :: (estimator, encoder_artifact) multi_model_loader)
       ''online-payment'' \<and>
   load_model (sample_files 5 11) init_loader ''online-payment'' ''absent.pkl'' None =
     (False, init_loader) \<and>
   path_exists (sample_files 5 11) ''corrupt.pkl'' \<and>
   joblib_load_model (sample_files 5 11) ''corrupt.pkl'' = Inl ValueError \<and>
   pickle_load_model (sample_files 5 11) ''corrupt.pkl'' = Inl ValueError \<and>
   fst (load_model (sample_files 5 11) init_loader ''online-payment'' ''corrupt.pkl'' None) =
     False \<and>
   \<not> is_model_loaded
       (snd (load_model (sample_files 5 11) init_loader ''online-payment'' ''corrupt.pkl'' None))
       ''online-payment'' \<and>
   path_exists (sample_files 5 11) ''online_payment.pkl'' \<and>
   joblib_load_model (sample_files 5 11) ''online_payment.pkl'' = Inr (sample_estimator 5) \<and>
   encoder_unavailable (sample_files 5 11) (Some ''online_payment_label_encoder.pkl'') \<and>
   fst (load_model (sample_files 5 11) init_loader ''online-payment'' ''online_payment.pkl''
          (Some ''online_payment_label_encoder.pkl'')) = True \<and>
   is_model_loaded
     (snd (load_model (sample_files 5 11) init_loader ''online-payment'' ''online_payment.pkl''
             (Some ''online_payment_label_encoder.pkl''))) ''online-payment'' \<and>
   get_label_encoders
     (snd (load_model (sample_files 5 11) init_loader ''online-payment'' ''online_payment.pkl''
             (Some ''online_payment_label_encoder.pkl''))) ''online-payment'' = None"
proof -
  have h: "\<not> path_exists (sample_files 5 11) ''absent.pkl''"
    "\<not> is_model_loaded (init_loader :: (estimator, encoder_artifact) multi_model_loader)
       ''online-payment''"
    "path_exists (sample_files 5 11) ''corrupt.pkl''"
    "joblib_load_model (sample_files 5 11) ''corrupt.pkl'' = Inl ValueError"
    "pickle_load_model (sample_files 5 11) ''corrupt.pkl'' = Inl ValueError"
    "path_exists (sample_files 5 11) ''online_payment.pkl''"
    "joblib_load_model (sample_files 5 11) ''online_payment.pkl'' = Inr (sample_estimator 5)"
    "encoder_unavailable (sample_files 5 11) (Some ''online_payment_label_encoder.pkl'')"
    by (simp_all add: sample_files_def is_model_loaded_def init_loader_def encoder_unavailable_def)
  from h load_model_outcomes [of "sample_files 5 11" "''absent.pkl''" init_loader
      "''online-payment''" None ValueError ValueError "sample_estimator 5"]
  have a: "load_model (sample_files 5 11) init_loader ''online-payment'' ''absent.pkl'' None =
     (False, init_loader)"
    by blast
  from h load_model_outcomes [of "sample_files 5 11" "''corrupt.pkl''" init_loader
      "''online-payment''" None ValueError ValueError "sample_estimator 5"]
  have b: "fst (load_model (sample_files 5 11) init_loader ''online-payment'' ''corrupt.pkl'' None) =
     False \<and>
   \<not> is_model_loaded
       (snd (load_model (sample_files 5 11) init_loader ''online-payment'' ''corrupt.pkl'' None))
       ''online-payment''"
    by blast
  from h load_model_outcomes [of "sample_files 5 11" "''online_payment.pkl''" init_loader
      "''online-payment''" "Some ''online_payment_label_encoder.pkl''" ValueError ValueError
      "sample_estimator 5"]
  have c: "fst (load_model (sample_files 5 11) init_loader ''online-payment'' ''online_payment.pkl''
          (Some ''online_payment_label_encoder.pkl'')) = True \<and>
   is_model_loaded
     (snd (load_model (sample_files 5 11) init_loader ''online-payment'' ''online_payment.pkl''
             (Some ''online_payment_label_encoder.pkl''))) ''online-payment'' \<and>
   get_label_encoders
     (snd (load_model (sample_files 5 11) init_loader ''online-payment'' ''online_payment.pkl''
             (Some ''online_payment_label_encoder.pkl''))) ''online-payment'' = None"
    by blast
  from h a b c show ?thesis by blast
qed




section \<open>Repeated calls\<close>

lemma unchanged_refl [simp]: "unchanged w w"
  by (simp add: unchanged_def)

lemma unchanged_log [simp]: "unchanged w (w'\<lparr>log_records := l\<rparr>) = unchanged w w'"
  by (simp add: unchanged_def)

lemma fallback_call_eq:
  "fallback_call w = (fallback_encode (data_obj w), w)"
  by (simp add: fallback_call_def fallback_encode_def and_then_def read_field_def returns_def
        then_do_def split: sum.splits)

lemma encode_type_call_eq:
  "\<exists>w'. encode_type_call w = (encode_type (data_obj w) (encoder_obj w), w') \<and> unchanged w w'"
  by (auto simp: encode_type_call_def encode_type_def encode_type_try_def try_except_def
        and_then_def the_encoder_def read_field_def lift_def returns_def logger_def
        fallback_call_eq then_do_def fallback_encode_def getitem_def
      split: sum.splits option.splits encoder_artifact.splits prod.splits if_splits)

lemma unchanged_trans: "unchanged w w1 \<Longrightarrow> unchanged w1 w2 \<Longrightarrow> unchanged w w2"
  by (simp add: unchanged_def)

lemma preprocess_online_payment_call_eq:
  "\<exists>w'. preprocess_online_payment_call w =
          (preprocess_online_payment_data (data_obj w) (encoder_obj w), w') \<and> unchanged w w'"
proof -
  from encode_type_call_eq [of w] obtain w1 where
    e: "encode_type_call w = (encode_type (data_obj w) (encoder_obj w), w1)"
    and u: "unchanged w w1" by blast
  from u have d: "data_obj w1 = data_obj w" by (simp add: unchanged_def)
  show ?thesis
    unfolding preprocess_online_payment_call_def preprocess_online_payment_data_def
    using u
    by (simp add: and_then_def e d read_field_def lift_def returns_def then_do_def
          split: sum.splits)
qed

lemma numerical_loop_eq:
  "\<exists>w'. for_each (numerical_step env) fs features w =
          (append_numerical env (data_obj w) fs features, w') \<and> unchanged w w'"
proof (induction fs arbitrary: features)
  case Nil
  show ?case by simp
next
  case (Cons f fs)
  show ?case
    using Cons.IH
    by (simp add: numerical_step_def and_then_def read_field_def lift_def returns_def
          then_do_def split: sum.splits)
qed

lemma is_value_error_KeyError [simp]: "\<not> is_value_error (KeyError k)"
  by (simp add: is_value_error_def)

lemma encoded_step_eq:
  "\<exists>w'. encoded_step env m f features w =
          (Inr (features @ [PInt (encoded_code env (data_obj w) m f)]), w') \<and> unchanged w w'"
  by (auto simp: encoded_step_def encoded_code_def encode_with_def try_except_def and_then_def
        read_field_def lift_def returns_def logger_def then_do_def getitem_def
      split: option.splits sum.splits prod.splits if_splits)

lemma encoded_loop_eq:
  "\<exists>w'. for_each (encoded_step env m) fs features w =
          (Inr (append_encoded env (data_obj w) m fs features), w') \<and> unchanged w w'"
proof (induction fs arbitrary: features w)
  case Nil
  show ?case by simp
next
  case (Cons f fs)
  from encoded_step_eq [of env m f features w] obtain w1 where
    s: "encoded_step env m f features w =
          (Inr (features @ [PInt (encoded_code env (data_obj w) m f)]), w1)"
    and u: "unchanged w w1" by blast
  from Cons.IH [of "features @ [PInt (encoded_code env (data_obj w) m f)]" w1] obtain w2 where
    r: "for_each (encoded_step env m) fs (features @ [PInt (encoded_code env (data_obj w) m f)]) w1 =
          (Inr (append_encoded env (data_obj w1) m fs
                 (features @ [PInt (encoded_code env (data_obj w) m f)])), w2)"
    and u2: "unchanged w1 w2" by blast
  from u have d: "data_obj w1 = data_obj w" by (simp add: unchanged_def)
  have "append_encoded env (data_obj w) m (f # fs) features =
        append_encoded env (data_obj w) m fs (features @ [PInt (encoded_code env (data_obj w) m f)])"
    by (simp add: encoded_code_def split: option.splits sum.splits)
  with s r d unchanged_trans [OF u u2] show ?case by simp
qed

lemma hashed_step_eq:
  "\<exists>w'. hashed_step env f features w =
          (Inr (features @ [PInt (case hash_encode env (data_obj w) f of Inr n \<Rightarrow> n | Inl _ \<Rightarrow> 0)]),
           w') \<and> unchanged w w'"
  by (auto simp: hashed_step_def hash_encode_def try_except_def and_then_def
        read_field_def returns_def logger_def then_do_def getitem_def
      split: option.splits sum.splits prod.splits)

lemma hashed_loop_eq:
  "\<exists>w'. for_each (hashed_step env) fs features w =
          (Inr (append_hashed env (data_obj w) fs features), w') \<and> unchanged w w'"
proof (induction fs arbitrary: features w)
  case Nil
  show ?case by simp
next
  case (Cons f fs)
  let ?x = "PInt (case hash_encode env (data_obj w) f of Inr n \<Rightarrow> n | Inl _ \<Rightarrow> 0)"
  from hashed_step_eq [of env f features w] obtain w1 where
    s: "hashed_step env f features w = (Inr (features @ [?x]), w1)"
    and u: "unchanged w w1" by blast
  from Cons.IH [of "features @ [?x]" w1] obtain w2 where
    r: "for_each (hashed_step env) fs (features @ [?x]) w1 =
          (Inr (append_hashed env (data_obj w1) fs (features @ [?x])), w2)"
    and u2: "unchanged w1 w2" by blast
  from u have d: "data_obj w1 = data_obj w" by (simp add: unchanged_def)
  have "append_hashed env (data_obj w) (f # fs) features =
        append_hashed env (data_obj w) fs (features @ [?x])"
    by (simp split: sum.splits)
  with s r d unchanged_trans [OF u u2] show ?case by simp
qed

lemma hashed_call_eq:
  "\<exists>w'. hashed_call env features w =
          (Inr (append_hashed env (data_obj w) categorical_features features), w') \<and>
        unchanged w w'"
proof -
  let ?w1 = "w\<lparr>log_records := log_records w @
      [Log Warning ''Label encoders not available, using hash-based fallback'' []]\<rparr>"
  from hashed_loop_eq [of env categorical_features features ?w1] obtain w2 where
    "for_each (hashed_step env) categorical_features features ?w1 =
       (Inr (append_hashed env (data_obj ?w1) categorical_features features), w2)"
    "unchanged ?w1 w2" by blast
  then show ?thesis
    by (simp add: hashed_call_def and_then_def logger_def unchanged_def)
qed

lemma preprocess_credit_card_call_eq:
  "\<exists>w'. preprocess_credit_card_call env w =
          (preprocess_credit_card_data env (data_obj w) (encoder_obj w), w') \<and> unchanged w w'"
proof -
  from numerical_loop_eq [of env numerical_features "[]" w] obtain w1 where
    n: "for_each (numerical_step env) numerical_features [] w =
          (append_numerical env (data_obj w) numerical_features [], w1)"
    and u: "unchanged w w1" by blast
  from u have d: "data_obj w1 = data_obj w" "encoder_obj w1 = encoder_obj w"
    by (simp_all add: unchanged_def)
  show ?thesis
  proof (cases "append_numerical env (data_obj w) numerical_features []")
    case (Inl e)
    with n u show ?thesis
      by (simp add: preprocess_credit_card_call_def preprocess_credit_card_data_def and_then_def)
  next
    case (Inr features)
    have "\<exists>w'. (case encoder_obj w of
                  Some (EncoderDict m) \<Rightarrow>
                    if m \<noteq> [] then for_each (encoded_step env m) categorical_features features
                    else hashed_call env features
                | _ \<Rightarrow> hashed_call env features) w1 =
               ((case encoder_obj w of
                   Some (EncoderDict m) \<Rightarrow>
                     if m \<noteq> [] then Inr (append_encoded env (data_obj w) m categorical_features features)
                     else Inr (append_hashed env (data_obj w) categorical_features features)
                 | _ \<Rightarrow> Inr (append_hashed env (data_obj w) categorical_features features)), w') \<and>
               unchanged w1 w'"
      using hashed_call_eq [of env features w1]
        encoded_loop_eq [of env _ categorical_features features w1]
      by (simp add: d split: option.splits encoder_artifact.splits)
    then obtain w2 where
      c: "(case encoder_obj w of
                  Some (EncoderDict m) \<Rightarrow>
                    if m \<noteq> [] then for_each (encoded_step env m) categorical_features features
                    else hashed_call env features
                | _ \<Rightarrow> hashed_call env features) w1 =
               ((case encoder_obj w of
                   Some (EncoderDict m) \<Rightarrow>
                     if m \<noteq> [] then Inr (append_encoded env (data_obj w) m categorical_features features)
                     else Inr (append_hashed env (data_obj w) categorical_features features)
                 | _ \<Rightarrow> Inr (append_hashed env (data_obj w) categorical_features features)), w2)"
      and u2: "unchanged w1 w2" by blast
    from n Inr c d unchanged_trans [OF u u2] show ?thesis
      by (simp add: preprocess_credit_card_call_def preprocess_credit_card_data_def and_then_def
            the_encoder_def)
  qed
qed

text \<open>
  Claim C9. In every world, a call of either preprocessing function returns what the function
  of the record and the encoder alone returns, and leaves the record and the encoder as they
  were; only the log grows. A second call, run in the world the first one left, therefore
  returns the same feature vector (or raises the same exception).
\<close>

theorem preprocessing_repeatable:
  "fst (preprocess_online_payment_call w) =
     preprocess_online_payment_data (data_obj w) (encoder_obj w) \<and>
   data_obj (snd (preprocess_online_payment_call w)) = data_obj w \<and>
   encoder_obj (snd (preprocess_online_payment_call w)) = encoder_obj w \<and>
   fst (preprocess_online_payment_call (snd (preprocess_online_payment_call w))) =
     fst (preprocess_online_payment_call w) \<and>
   fst (preprocess_credit_card_call env w) =
     preprocess_credit_card_data env (data_obj w) (encoder_obj w) \<and>
   data_obj (snd (preprocess_credit_card_call env w)) = data_obj w \<and>
   encoder_obj (snd (preprocess_credit_card_call env w)) = encoder_obj w \<and>
   fst (preprocess_credit_card_call env (snd (preprocess_credit_card_call env w))) =
     fst (preprocess_credit_card_call env w)"
proof -
  from preprocess_online_payment_call_eq [of w] obtain w1 where
    a: "preprocess_online_payment_call w =
          (preprocess_online_payment_data (data_obj w) (encoder_obj w), w1)"
    and u1: "unchanged w w1" by blast
  from preprocess_online_payment_call_eq [of w1] obtain w2 where
    b: "preprocess_online_payment_call w1 =
          (preprocess_online_payment_data (data_obj w1) (encoder_obj w1), w2)" by blast
  from preprocess_credit_card_call_eq [of env w] obtain v1 where
    c: "preprocess_credit_card_call env w =
          (preprocess_credit_card_data env (data_obj w) (encoder_obj w), v1)"
    and u3: "unchanged w v1" by blast
  from preprocess_credit_card_call_eq [of env v1] obtain v2 where
    d: "preprocess_credit_card_call env v1 =
          (preprocess_credit_card_data env (data_obj v1) (encoder_obj v1), v2)" by blast
  from a b c d u1 u3 show ?thesis by (simp add: unchanged_def)
qed

lemma sample_encoded_features:
  "preprocess_credit_card_data sample_builtins sample_card sample_encoders =
     Inr [PFloat (nearest_double 4.97), PFloat (nearest_double 39.9459),
          PFloat (nearest_double (- 82.1661)), PFloat 35, PFloat (nearest_double 39.9459),
          PFloat (nearest_double (- 82.1661)), PInt 0, PInt 0, PInt 0, PInt 0, PInt 0]"
  by code_simp

lemma sample_world_logs:
  "log_records (snd (preprocess_credit_card_call sample_builtins sample_world)) =
     [Log Warning ''Unknown value, using 0''
        [Name ''merchant'', Val (PStr ''fraud_Rippin, Kub and Mann'')],
      Log Warning ''No encoder found'' [Name ''category''],
      Log Warning ''No encoder found'' [Name ''city''],
      Log Warning ''No encoder found'' [Name ''state''],
      Log Warning ''No encoder found'' [Name ''job'']]"
  by (simp add: preprocess_credit_card_call_def sample_world_def sample_encoders_def
        numerical_step_def encoded_step_def try_except_def and_then_def the_encoder_def
        read_field_def lift_def returns_def logger_def py_float_def call_transform_def
        unseen_encoder_def is_value_error_def py_str_def record_eval)

text \<open>The theorem of C9 in the sample world: the first call writes five warnings, the
  second returns the same vector.\<close>

theorem preprocessing_repeatable_witness:
  "log_records sample_world = [] \<and>
   length (log_records (snd (preprocess_credit_card_call sample_builtins sample_world))) = 5 \<and>
   data_obj (snd (preprocess_credit_card_call sample_builtins sample_world)) = sample_card \<and>
   encoder_obj (snd (preprocess_credit_card_call sample_builtins sample_world)) = sample_encoders \<and>
   fst (preprocess_credit_card_call sample_builtins
          (snd (preprocess_credit_card_call sample_builtins sample_world))) =
     Inr [PFloat (nearest_double 4.97), PFloat (nearest_double 39.9459),
          PFloat (nearest_double (- 82.1661)), PFloat 35, PFloat (nearest_double 39.9459),
          PFloat (nearest_double (- 82.1661)), PInt 0, PInt 0, PInt 0, PInt 0, PInt 0]"
proof -
  let ?call = "preprocess_credit_card_call sample_builtins"
  have w: "data_obj sample_world = sample_card" "encoder_obj sample_world = sample_encoders"
    "log_records sample_world = []"
    by (simp_all add: sample_world_def)
  from preprocessing_repeatable [of sample_world sample_builtins]
  have r: "fst (?call sample_world) =
        preprocess_credit_card_data sample_builtins (data_obj sample_world)
          (encoder_obj sample_world)"
    "data_obj (snd (?call sample_world)) = data_obj sample_world"
    "encoder_obj (snd (?call sample_world)) = encoder_obj sample_world"
    "fst (?call (snd (?call sample_world))) = fst (?call sample_world)"
    by blast+
  from r w show ?thesis
    by (simp add: sample_world_logs sample_encoded_features)
qed

end
